theory Spec2Isabelle
  imports Main "HOL-Library.Word" "HOL-Library.Char_ord" "HOL-Library.Monad_Syntax"
begin

unbundle bit_operations_syntax

section \<open>Values\<close>

text \<open>
  Go's \<open>int64\<close> is a 64-bit word: \<open>+\<close> wraps, \<open>sint\<close> reads the signed value.
  A Go \<open>byte\<close> is a \<open>char\<close> (eight bits), a Go \<open>string\<close> and a \<open>[]byte\<close> are lists
  of them.  A result of type \<open>'a option\<close> is \<open>None\<close> where the Go runtime panics
  (index or slice out of range, nil dereference, failed type assertion).
\<close>

type_synonym int64 = "64 word"

text \<open>
  Modelled from the spec: package \<open>types\<close> is not among the sources.  The spec gives the
  variants Undefined, Null, Boolean, Integer (64-bit signed), Number (64-bit floating
  point) and String.  A \<open>float64\<close> is kept as the decimal number it is the nearest
  float to (sign, decimal mantissa, decimal exponent); its rounding is not modelled.
\<close>

datatype float64 = Float64 bool int int

datatype DataType =
    UndefinedType
  | NullType
  | BooleanType bool
  | IntegerType int64
  | NumberType float64
  | StringType string

text \<open>
  \<open>types.DataType\<close> is an interface: a value of it is nil (\<open>None\<close>) or one of the
  variants.  A \<open>*types.DataType\<close> is the nil pointer (\<open>None\<close>) or a pointer to such a
  value, kept as the value it points to: nothing in the engine writes through one.
\<close>

type_synonym DataType_value = "DataType option"
type_synonym DataType_ptr = "DataType option option"

section \<open>The engine: operations.go and the process\<close>

text \<open>A Go \<open>error\<close> made by \<open>errors.New\<close>.\<close>

datatype error = Error string

text \<open>
  \<open>OpData interface{}\<close>: a \<open>*types.DataType\<close>, nil or not, or \<open>NoData\<close> for anything
  else (the nil interface too), on which the type assertion of \<open>PushLiteralValue\<close>
  panics.
\<close>

datatype OpData = NoData | DataPtr DataType_ptr

text \<open>
  \<open>ExecFn OpCodeFn\<close> is a function value.  The two functions of operations.go are named.
  \<open>OtherFn i\<close> is any other Go function of that type, the \<open>i\<close>-th of a family
  \<open>behaviours\<close> that the run is given: such a function receives the process and may
  leave it in any state (it can call \<open>PushLiteralValue\<close>, \<open>AdditionOperation\<close> and
  \<open>Function.Exec\<close> on it, and change the code through the exported fields), and return
  nil or a failure; its result is \<open>None\<close> when it panics, as the call of a nil function
  value does.  What it does is a function of the process and the instruction it is given.
\<close>

datatype OpCodeFn = PushLiteralValue | AdditionOperation | OtherFn nat

record OpCode =
  LineNumber :: int
  ExecFn :: OpCodeFn
  OpData :: OpData

record Function =
  Name :: string
  Code :: "OpCode list"

text \<open>
  \<open>stack []*types.DataType\<close>: a slot holds the nil pointer (\<open>None\<close>) after \<open>make\<close>.
  \<open>body\<close> is nil in a fresh \<open>Process{}\<close>; it stands for the Function it points to, as
  that Function is at the moment.
\<close>

record Process =
  body :: "Function option"
  pc :: int
  stack :: "DataType_ptr list"
  sp :: int

type_synonym behaviours = "nat \<Rightarrow> Process \<Rightarrow> OpCode \<Rightarrow> (error option \<times> Process) option"

definition push :: "Process \<Rightarrow> DataType_ptr \<Rightarrow> (error option \<times> Process) option" where
  "push prc val =
     (if 0 \<le> sp prc \<and> sp prc < int (length (stack prc))
      then Some (None, prc\<lparr>stack := (stack prc)[nat (sp prc) := val], sp := sp prc + 1\<rparr>)
      else None)"

definition peek :: "Process \<Rightarrow> (DataType_ptr \<times> error option) option" where
  "peek prc =
     (if 0 \<le> sp prc - 1 \<and> sp prc - 1 < int (length (stack prc))
      then Some (stack prc ! nat (sp prc - 1), None)
      else None)"

definition pop :: "Process \<Rightarrow> ((DataType_ptr \<times> error option) \<times> Process) option" where
  "pop prc =
     (let prc' = prc\<lparr>sp := sp prc - 1\<rparr> in
      if 0 \<le> sp prc' \<and> sp prc' < int (length (stack prc'))
      then Some ((stack prc' ! nat (sp prc'), None), prc')
      else None)"

definition PushLiteralValue_fn :: "Process \<Rightarrow> OpCode \<Rightarrow> (error option \<times> Process) option" where
  "PushLiteralValue_fn prc op =
     (case OpData op of
        NoData \<Rightarrow> None
      | DataPtr p \<Rightarrow> push prc p)"

text \<open>
  The two type switches of \<open>AdditionOperation\<close>: \<open>*left\<close> is read first, \<open>*right\<close>
  only when \<open>*left\<close> is an Integer.  Reading through a nil pointer panics; a nil
  interface value matches no case.
\<close>

definition addition_result :: "DataType_ptr \<Rightarrow> DataType_ptr \<Rightarrow> DataType option" where
  "addition_result left right =
     (case left of
        None \<Rightarrow> None
      | Some (Some (IntegerType l)) \<Rightarrow>
          (case right of
             None \<Rightarrow> None
           | Some (Some (IntegerType r)) \<Rightarrow> Some (IntegerType (l + r))
           | Some _ \<Rightarrow> Some UndefinedType)
      | Some _ \<Rightarrow> Some UndefinedType)"

definition AdditionOperation_fn :: "Process \<Rightarrow> OpCode \<Rightarrow> (error option \<times> Process) option" where
  "AdditionOperation_fn prc op =
     (case pop prc of
        None \<Rightarrow> None
      | Some ((left, Some e), prc1) \<Rightarrow> Some (Some e, prc1)
      | Some ((left, None), prc1) \<Rightarrow>
          (case pop prc1 of
             None \<Rightarrow> None
           | Some ((right, Some e), prc2) \<Rightarrow> Some (Some e, prc2)
           | Some ((right, None), prc2) \<Rightarrow>
               (case addition_result left right of
                  None \<Rightarrow> None
                | Some res \<Rightarrow> push prc2 (Some (Some res)))))"

text \<open>The call \<open>op.ExecFn(prc, op)\<close>, given what the other functions do.\<close>

definition call_ExecFn :: "behaviours \<Rightarrow> OpCode \<Rightarrow> Process \<Rightarrow> (error option \<times> Process) option" where
  "call_ExecFn env op prc =
     (case ExecFn op of
        PushLiteralValue \<Rightarrow> PushLiteralValue_fn prc op
      | AdditionOperation \<Rightarrow> AdditionOperation_fn prc op
      | OtherFn i \<Rightarrow> env i prc op)"

text \<open>
  The loop of \<open>Function.Exec\<close>.  It reads \<open>prc.pc\<close> and \<open>prc.body\<close> anew in every round,
  so a behaviour that changes them changes what runs next, and the loop need not end: the
  outer \<open>None\<close> is a run that goes on for ever.  Inside, \<open>None\<close> is a panic, and the
  error is \<open>None\<close> when the program counter has left the code.
\<close>

partial_function (option) Exec_loop ::
  "behaviours \<Rightarrow> Process \<Rightarrow> (error option \<times> Process) option option" where
  "Exec_loop env prc =
     (case body prc of
        None \<Rightarrow> Some None
      | Some b \<Rightarrow>
          if pc prc < 0 \<or> pc prc \<ge> int (length (Code b)) then Some (Some (None, prc))
          else
            (case call_ExecFn env (Code b ! nat (pc prc)) prc of
               None \<Rightarrow> Some None
             | Some (Some e, prc') \<Rightarrow> Some (Some (Some e, prc'))
             | Some (None, prc') \<Rightarrow> Exec_loop env (prc'\<lparr>pc := pc prc' + 1\<rparr>)))"

definition Exec_init :: "Function \<Rightarrow> Process \<Rightarrow> Process" where
  "Exec_init f prc = prc\<lparr>body := Some f, pc := 0, stack := replicate 16 None, sp := 0\<rparr>"

text \<open>
  \<open>Function.Exec\<close> returns \<open>(ret, err)\<close>, here \<open>Inr ret\<close> or \<open>Inl err\<close>, and the process
  as it leaves it.  Modelled from the spec: \<open>types.Undefined\<close> is the Undefined value.
\<close>

definition Exec ::
  "behaviours \<Rightarrow> Function \<Rightarrow> Process \<Rightarrow> ((error + DataType_value) \<times> Process) option option"
  where
  "Exec env f prc0 =
     (case Exec_loop env (Exec_init f prc0) of
        None \<Rightarrow> None
      | Some None \<Rightarrow> Some None
      | Some (Some (Some e, prc)) \<Rightarrow> Some (Some (Inl e, prc))
      | Some (Some (None, prc)) \<Rightarrow>
          if sp prc > 0 then
            (if sp prc - 1 < int (length (stack prc)) then
               (case stack prc ! nat (sp prc - 1) of
                  None \<Rightarrow> Some None
                | Some v \<Rightarrow> Some (Some (Inr v, prc)))
             else Some None)
          else Some (Some (Inr (Some UndefinedType), prc)))"

text \<open>
  The process at the head of the loop after \<open>n\<close> rounds, each of which has run an
  instruction that returned nil.
\<close>

fun Exec_rounds :: "behaviours \<Rightarrow> nat \<Rightarrow> Process \<Rightarrow> Process option" where
  "Exec_rounds env 0 prc = Some prc"
| "Exec_rounds env (Suc n) prc =
     (case body prc of
        None \<Rightarrow> None
      | Some b \<Rightarrow>
          if pc prc < 0 \<or> pc prc \<ge> int (length (Code b)) then None
          else
            (case call_ExecFn env (Code b ! nat (pc prc)) prc of
               Some (None, prc') \<Rightarrow> Exec_rounds env n (prc'\<lparr>pc := pc prc' + 1\<rparr>)
             | _ \<Rightarrow> None))"

text \<open>
  The run the spec describes: every instruction once, in order, the program counter
  advanced by one after each success, stopping at the first failure.
\<close>

fun run_seq :: "behaviours \<Rightarrow> OpCode list \<Rightarrow> Process \<Rightarrow> (error option \<times> Process) option" where
  "run_seq env [] prc = Some (None, prc)"
| "run_seq env (op # ops) prc =
     (case call_ExecFn env op prc of
        None \<Rightarrow> None
      | Some (Some e, prc') \<Rightarrow> Some (Some e, prc')
      | Some (None, prc') \<Rightarrow> run_seq env ops (prc'\<lparr>pc := pc prc' + 1\<rparr>))"

text \<open>
  An instruction that alters no control flow: whatever the process, its behaviour leaves
  the program counter and the body as it found them.
\<close>

definition keeps_control :: "behaviours \<Rightarrow> OpCode \<Rightarrow> bool" where
  "keeps_control env op =
     (\<forall>prc r prc'. call_ExecFn env op prc = Some (r, prc') \<longrightarrow>
        body prc' = body prc \<and> pc prc' = pc prc)"

text \<open>
  The addition of the spec: the wrapping sum of the two signed values for two Integers,
  Undefined for every other pair.
\<close>

fun add_values :: "DataType \<Rightarrow> DataType \<Rightarrow> DataType" where
  "add_values (IntegerType a) (IntegerType b) = IntegerType (word_of_int (sint a + sint b))"
| "add_values _ _ = UndefinedType"

subsection \<open>Processes, instructions and Functions of the examples\<close>

definition fresh_Process :: Process where
  "fresh_Process = \<lparr>body = None, pc = 0, stack = [], sp = 0\<rparr>"

definition push_op :: "int64 \<Rightarrow> OpCode" where
  "push_op n =
     \<lparr>LineNumber = 1, ExecFn = PushLiteralValue, OpData = DataPtr (Some (Some (IntegerType n)))\<rparr>"

definition add_op :: OpCode where
  "add_op = \<lparr>LineNumber = 1, ExecFn = AdditionOperation, OpData = NoData\<rparr>"

definition empty_Function :: Function where
  "empty_Function = \<lparr>Name = [], Code = []\<rparr>"

text \<open>No other function is used: every \<open>OtherFn\<close> returns nil and does nothing.\<close>

definition no_behaviours :: behaviours where
  "no_behaviours i prc op = Some (None, prc)"

text \<open>
  \<open>func(prc, op) error { (&Function{}).Exec(prc); return nil }\<close>: a behaviour that runs
  the empty Function in the process it is given and returns nil.
\<close>

definition reentering :: behaviours where
  "reentering i prc op =
     (case Exec no_behaviours empty_Function prc of
        Some (Some (r, prc')) \<Rightarrow> Some (None, prc')
      | _ \<Rightarrow> None)"

text \<open>
  \<open>func(prc, op) error { PushLiteralValue(prc, op); return errors.New("boom") }\<close>.
\<close>

definition push_then_fail :: behaviours where
  "push_then_fail i prc op =
     (case PushLiteralValue_fn prc op of
        None \<Rightarrow> None
      | Some (r, prc') \<Rightarrow> Some (Some (Error ''boom''), prc'))"

definition two_pushes_add :: Function where
  "two_pushes_add = \<lparr>Name = [], Code = [push_op 2, push_op 40, add_op]\<rparr>"

definition reenter_then_push :: Function where
  "reenter_then_push = \<lparr>Name = [], Code =
     [\<lparr>LineNumber = 1, ExecFn = OtherFn 0, OpData = NoData\<rparr>, push_op 1]\<rparr>"

definition push_nil_pointer :: Function where
  "push_nil_pointer = \<lparr>Name = [], Code =
     [\<lparr>LineNumber = 1, ExecFn = PushLiteralValue, OpData = DataPtr None\<rparr>]\<rparr>"

definition failing_in_the_middle :: Function where
  "failing_in_the_middle = \<lparr>Name = [], Code =
     [push_op 1,
      \<lparr>LineNumber = 2, ExecFn = OtherFn 0, OpData = DataPtr (Some (Some (IntegerType 7)))\<rparr>,
      push_op 2]\<rparr>"

definition seventeen_pushes :: Function where
  "seventeen_pushes = \<lparr>Name = [], Code = replicate 17 (push_op 1)\<rparr>"

definition lone_addition :: Function where
  "lone_addition = \<lparr>Name = [], Code = [add_op]\<rparr>"

section \<open>The scanner: lexer.go\<close>

subsection \<open>Bytes, tokens and the scanner's state\<close>

abbreviation NUL :: char where "NUL \<equiv> CHR 0x00"
abbreviation BS :: char where "BS \<equiv> CHR 0x08"
abbreviation TAB :: char where "TAB \<equiv> CHR 0x09"
abbreviation LF :: char where "LF \<equiv> CHR 0x0A"
abbreviation VT :: char where "VT \<equiv> CHR 0x0B"
abbreviation FF :: char where "FF \<equiv> CHR 0x0C"
abbreviation CR :: char where "CR \<equiv> CHR 0x0D"
abbreviation DQUOTE :: char where "DQUOTE \<equiv> CHR 0x22"
abbreviation SQUOTE :: char where "SQUOTE \<equiv> CHR 0x27"
abbreviation BACKSLASH :: char where "BACKSLASH \<equiv> CHR 0x5C"

text \<open>
  Modelled from the spec: the token numbers \<open>GTOK_...\<close> are constants of grammar.go,
  which goyacc generates and which is not among the sources.  goyacc numbers the tokens
  of a grammar from 57346 on; the order below is not the grammar's.  The scanner only
  relies on their being different from each other and from 0, which it returns at the
  end of the input.
\<close>

type_synonym token = int

abbreviation GTOK_ERROR :: token where "GTOK_ERROR \<equiv> 57346"
abbreviation GTOK_IDENTIFIER :: token where "GTOK_IDENTIFIER \<equiv> 57347"
abbreviation GTOK_LITERAL :: token where "GTOK_LITERAL \<equiv> 57348"
abbreviation GTOK_REGEXP :: token where "GTOK_REGEXP \<equiv> 57349"
abbreviation GTOK_BREAK :: token where "GTOK_BREAK \<equiv> 57350"
abbreviation GTOK_CASE :: token where "GTOK_CASE \<equiv> 57351"
abbreviation GTOK_CATCH :: token where "GTOK_CATCH \<equiv> 57352"
abbreviation GTOK_CLASS :: token where "GTOK_CLASS \<equiv> 57353"
abbreviation GTOK_CONST :: token where "GTOK_CONST \<equiv> 57354"
abbreviation GTOK_CONTINUE :: token where "GTOK_CONTINUE \<equiv> 57355"
abbreviation GTOK_DEBUGGER :: token where "GTOK_DEBUGGER \<equiv> 57356"
abbreviation GTOK_DEFAULT :: token where "GTOK_DEFAULT \<equiv> 57357"
abbreviation GTOK_DELETE :: token where "GTOK_DELETE \<equiv> 57358"
abbreviation GTOK_DO :: token where "GTOK_DO \<equiv> 57359"
abbreviation GTOK_ELSE :: token where "GTOK_ELSE \<equiv> 57360"
abbreviation GTOK_EXPORT :: token where "GTOK_EXPORT \<equiv> 57361"
abbreviation GTOK_EXTENDS :: token where "GTOK_EXTENDS \<equiv> 57362"
abbreviation GTOK_FINALLY :: token where "GTOK_FINALLY \<equiv> 57363"
abbreviation GTOK_FOR :: token where "GTOK_FOR \<equiv> 57364"
abbreviation GTOK_FUNCTION :: token where "GTOK_FUNCTION \<equiv> 57365"
abbreviation GTOK_IF :: token where "GTOK_IF \<equiv> 57366"
abbreviation GTOK_IMPORT :: token where "GTOK_IMPORT \<equiv> 57367"
abbreviation GTOK_IN :: token where "GTOK_IN \<equiv> 57368"
abbreviation GTOK_INSTANCEOF :: token where "GTOK_INSTANCEOF \<equiv> 57369"
abbreviation GTOK_LET :: token where "GTOK_LET \<equiv> 57370"
abbreviation GTOK_NEW :: token where "GTOK_NEW \<equiv> 57371"
abbreviation GTOK_RETURN :: token where "GTOK_RETURN \<equiv> 57372"
abbreviation GTOK_SUPER :: token where "GTOK_SUPER \<equiv> 57373"
abbreviation GTOK_SWITCH :: token where "GTOK_SWITCH \<equiv> 57374"
abbreviation GTOK_THIS :: token where "GTOK_THIS \<equiv> 57375"
abbreviation GTOK_THROW :: token where "GTOK_THROW \<equiv> 57376"
abbreviation GTOK_TRY :: token where "GTOK_TRY \<equiv> 57377"
abbreviation GTOK_TYPEOF :: token where "GTOK_TYPEOF \<equiv> 57378"
abbreviation GTOK_VAR :: token where "GTOK_VAR \<equiv> 57379"
abbreviation GTOK_VOID :: token where "GTOK_VOID \<equiv> 57380"
abbreviation GTOK_WHILE :: token where "GTOK_WHILE \<equiv> 57381"
abbreviation GTOK_WITH :: token where "GTOK_WITH \<equiv> 57382"
abbreviation GTOK_YIELD :: token where "GTOK_YIELD \<equiv> 57383"
abbreviation GTOK_AWAIT :: token where "GTOK_AWAIT \<equiv> 57384"
abbreviation GTOK_ENUM :: token where "GTOK_ENUM \<equiv> 57385"
abbreviation GTOK_IMPLEMENTS :: token where "GTOK_IMPLEMENTS \<equiv> 57386"
abbreviation GTOK_INTERFACE :: token where "GTOK_INTERFACE \<equiv> 57387"
abbreviation GTOK_PACKAGE :: token where "GTOK_PACKAGE \<equiv> 57388"
abbreviation GTOK_PRIVATE :: token where "GTOK_PRIVATE \<equiv> 57389"
abbreviation GTOK_PROTECTED :: token where "GTOK_PROTECTED \<equiv> 57390"
abbreviation GTOK_PUBLIC :: token where "GTOK_PUBLIC \<equiv> 57391"
abbreviation GTOK_NULL :: token where "GTOK_NULL \<equiv> 57392"
abbreviation GTOK_TRUE :: token where "GTOK_TRUE \<equiv> 57393"
abbreviation GTOK_FALSE :: token where "GTOK_FALSE \<equiv> 57394"
abbreviation GTOK_LC :: token where "GTOK_LC \<equiv> 57395"
abbreviation GTOK_RC :: token where "GTOK_RC \<equiv> 57396"
abbreviation GTOK_LP :: token where "GTOK_LP \<equiv> 57397"
abbreviation GTOK_RP :: token where "GTOK_RP \<equiv> 57398"
abbreviation GTOK_LB :: token where "GTOK_LB \<equiv> 57399"
abbreviation GTOK_RB :: token where "GTOK_RB \<equiv> 57400"
abbreviation GTOK_DOT :: token where "GTOK_DOT \<equiv> 57401"
abbreviation GTOK_SEMI :: token where "GTOK_SEMI \<equiv> 57402"
abbreviation GTOK_COMMA :: token where "GTOK_COMMA \<equiv> 57403"
abbreviation GTOK_TILDE :: token where "GTOK_TILDE \<equiv> 57404"
abbreviation GTOK_QMARK :: token where "GTOK_QMARK \<equiv> 57405"
abbreviation GTOK_COLON :: token where "GTOK_COLON \<equiv> 57406"
abbreviation GTOK_LTEQ :: token where "GTOK_LTEQ \<equiv> 57407"
abbreviation GTOK_LTLT :: token where "GTOK_LTLT \<equiv> 57408"
abbreviation GTOK_LT :: token where "GTOK_LT \<equiv> 57409"
abbreviation GTOK_GTEQ :: token where "GTOK_GTEQ \<equiv> 57410"
abbreviation GTOK_GTGTGT :: token where "GTOK_GTGTGT \<equiv> 57411"
abbreviation GTOK_GTGT :: token where "GTOK_GTGT \<equiv> 57412"
abbreviation GTOK_GT :: token where "GTOK_GT \<equiv> 57413"
abbreviation GTOK_EQEQEQ :: token where "GTOK_EQEQEQ \<equiv> 57414"
abbreviation GTOK_EQEQ :: token where "GTOK_EQEQ \<equiv> 57415"
abbreviation GTOK_REGEQ :: token where "GTOK_REGEQ \<equiv> 57416"
abbreviation GTOK_ASSIGNOP :: token where "GTOK_ASSIGNOP \<equiv> 57417"
abbreviation GTOK_NOTEQEQ :: token where "GTOK_NOTEQEQ \<equiv> 57418"
abbreviation GTOK_NOTEQ :: token where "GTOK_NOTEQ \<equiv> 57419"
abbreviation GTOK_REGNOTEQ :: token where "GTOK_REGNOTEQ \<equiv> 57420"
abbreviation GTOK_NOT :: token where "GTOK_NOT \<equiv> 57421"
abbreviation GTOK_INCR :: token where "GTOK_INCR \<equiv> 57422"
abbreviation GTOK_ADD :: token where "GTOK_ADD \<equiv> 57423"
abbreviation GTOK_DECR :: token where "GTOK_DECR \<equiv> 57424"
abbreviation GTOK_SUB :: token where "GTOK_SUB \<equiv> 57425"
abbreviation GTOK_MULT :: token where "GTOK_MULT \<equiv> 57426"
abbreviation GTOK_DIV :: token where "GTOK_DIV \<equiv> 57427"
abbreviation GTOK_MOD :: token where "GTOK_MOD \<equiv> 57428"
abbreviation GTOK_ANDAND :: token where "GTOK_ANDAND \<equiv> 57429"
abbreviation GTOK_AND :: token where "GTOK_AND \<equiv> 57430"
abbreviation GTOK_OROR :: token where "GTOK_OROR \<equiv> 57431"
abbreviation GTOK_OR :: token where "GTOK_OR \<equiv> 57432"
abbreviation GTOK_XOR :: token where "GTOK_XOR \<equiv> 57433"

text \<open>
  Modelled from the spec: \<open>gesSymType\<close> and the \<open>PARSED_...\<close> tags are declared in
  grammar.y, which is not among the sources; the fields are those the scanner and
  compiler.go use.  \<open>literal\<close> is an interface value, nil (\<open>None\<close>) in a fresh symbol.
\<close>

datatype parseType = PARSED_UNDEFINED | PARSED_IDENTIFIER | PARSED_LITERAL | PARSED_REGEXP

record parsingContext =
  ctx_body :: Function

record gesSymType =
  parseType :: parseType
  "identifier" :: string
  literal :: "DataType option"
  assignOp :: token
  sym_ctx :: "parsingContext option"

record gesLex =
  source :: string
  offset :: int
  lineNumber :: int
  regexValid :: bool
  error :: "string option"
  parsing_ctx :: parsingContext

definition newLexer :: "string \<Rightarrow> gesLex" where
  "newLexer src =
     \<lparr>source = src @ [NUL], offset = 0, lineNumber = 1, regexValid = False, error = None,
      parsing_ctx = \<lparr>ctx_body = \<lparr>Name = [], Code = []\<rparr>\<rparr>\<rparr>"

text \<open>The zero value of \<open>var lval gesSymType\<close>.\<close>

definition zero_gesSymType :: gesSymType where
  "zero_gesSymType =
     \<lparr>parseType = PARSED_UNDEFINED, identifier = [], literal = None, assignOp = 0,
      sym_ctx = None\<rparr>"

definition "keywords" :: "(string \<times> token) list" where
  "keywords =
     [(''break'', GTOK_BREAK), (''case'', GTOK_CASE), (''catch'', GTOK_CATCH),
      (''class'', GTOK_CLASS), (''const'', GTOK_CONST), (''continue'', GTOK_CONTINUE),
      (''debugger'', GTOK_DEBUGGER), (''default'', GTOK_DEFAULT), (''delete'', GTOK_DELETE),
      (''do'', GTOK_DO), (''else'', GTOK_ELSE), (''export'', GTOK_EXPORT),
      (''extends'', GTOK_EXTENDS), (''finally'', GTOK_FINALLY), (''for'', GTOK_FOR),
      (''function'', GTOK_FUNCTION), (''if'', GTOK_IF), (''import'', GTOK_IMPORT),
      (''in'', GTOK_IN), (''instanceof'', GTOK_INSTANCEOF), (''let'', GTOK_LET),
      (''new'', GTOK_NEW), (''return'', GTOK_RETURN), (''super'', GTOK_SUPER),
      (''switch'', GTOK_SWITCH), (''this'', GTOK_THIS), (''throw'', GTOK_THROW),
      (''try'', GTOK_TRY), (''typeof'', GTOK_TYPEOF), (''var'', GTOK_VAR),
      (''void'', GTOK_VOID), (''while'', GTOK_WHILE), (''with'', GTOK_WITH),
      (''yield'', GTOK_YIELD),
      (''await'', GTOK_AWAIT), (''enum'', GTOK_ENUM), (''implements'', GTOK_IMPLEMENTS),
      (''interface'', GTOK_INTERFACE), (''package'', GTOK_PACKAGE),
      (''private'', GTOK_PRIVATE), (''protected'', GTOK_PROTECTED),
      (''public'', GTOK_PUBLIC),
      (''null'', GTOK_NULL), (''true'', GTOK_TRUE), (''false'', GTOK_FALSE)]"

text \<open>
  \<open>s[i]\<close> and \<open>s[lo:hi]\<close> on a byte slice; both panic out of range.  Every upper
  bound the scanner slices at is an index it has read, so the length stands for the
  capacity.
\<close>

definition at :: "string \<Rightarrow> int \<Rightarrow> char option" where
  "at s i = (if 0 \<le> i \<and> i < int (length s) then Some (s ! nat i) else None)"

definition slice :: "string \<Rightarrow> int \<Rightarrow> int \<Rightarrow> string option" where
  "slice s lo hi =
     (if 0 \<le> lo \<and> lo \<le> hi \<and> hi \<le> int (length s)
      then Some (take (nat (hi - lo)) (drop (nat lo) s)) else None)"

definition isHex :: "char \<Rightarrow> bool" where
  "isHex ch =
     ((ch \<ge> CHR ''0'' \<and> ch \<le> CHR ''9'') \<or> (ch \<ge> CHR ''a'' \<and> ch \<le> CHR ''f'')
      \<or> (ch \<ge> CHR ''A'' \<and> ch \<le> CHR ''F''))"

definition hexToInt :: "char \<Rightarrow> int64" where
  "hexToInt ch =
     (if ch \<ge> CHR ''0'' \<and> ch \<le> CHR ''9'' then of_char ch - 48
      else if ch \<ge> CHR ''a'' \<and> ch \<le> CHR ''f'' then of_char ch - 87
      else if ch \<ge> CHR ''A'' \<and> ch \<le> CHR ''F'' then of_char ch - 55
      else 0)"

definition isDigit :: "char \<Rightarrow> bool" where
  "isDigit ch = (ch \<ge> CHR ''0'' \<and> ch \<le> CHR ''9'')"

definition isOctal :: "char \<Rightarrow> bool" where
  "isOctal ch = (ch \<ge> CHR ''0'' \<and> ch \<le> CHR ''7'')"

subsection \<open>The Go library functions the scanner calls\<close>

text \<open>
  Modelled from the Go language and its \<open>strconv\<close> package, which are no part of the
  repository.  \<open>string(wch)\<close> of a rune is its UTF-8 encoding, U+FFFD for a surrogate or
  a value that is no code point.
\<close>

definition utf8 :: "32 word \<Rightarrow> string" where
  "utf8 wch =
     (let r = unat wch;
          n = (if r > 0x10FFFF \<or> (0xD800 \<le> r \<and> r \<le> 0xDFFF) then 0xFFFD else r)
      in if n < 0x80 then [char_of n]
         else if n < 0x800 then [char_of (0xC0 + n div 0x40), char_of (0x80 + n mod 0x40)]
         else if n < 0x10000 then
           [char_of (0xE0 + n div 0x1000), char_of (0x80 + n div 0x40 mod 0x40),
            char_of (0x80 + n mod 0x40)]
         else
           [char_of (0xF0 + n div 0x40000), char_of (0x80 + n div 0x1000 mod 0x40),
            char_of (0x80 + n div 0x40 mod 0x40), char_of (0x80 + n mod 0x40)])"

datatype NumErr = ErrSyntax | ErrRange

definition digit_val :: "char \<Rightarrow> int" where
  "digit_val c = of_char c - 48"

text \<open>
  \<open>strconv.Quote\<close>, for the strings the scanner hands to \<open>ParseInt\<close> and \<open>ParseFloat\<close>:
  ASCII but for at most one byte, so that a byte from 0x80 on is no part of a UTF-8
  sequence and is escaped.
\<close>

definition hex_digit :: "nat \<Rightarrow> char" where
  "hex_digit n = ''0123456789abcdef'' ! (n mod 16)"

definition quote_byte :: "char \<Rightarrow> string" where
  "quote_byte c =
     (if c = DQUOTE then [BACKSLASH, DQUOTE]
      else if c = BACKSLASH then [BACKSLASH, BACKSLASH]
      else if c = CHR 0x07 then [BACKSLASH, CHR ''a'']
      else if c = BS then [BACKSLASH, CHR ''b'']
      else if c = FF then [BACKSLASH, CHR ''f'']
      else if c = LF then [BACKSLASH, CHR ''n'']
      else if c = CR then [BACKSLASH, CHR ''r'']
      else if c = TAB then [BACKSLASH, CHR ''t'']
      else if c = VT then [BACKSLASH, CHR ''v'']
      else if c < CHR 0x20 \<or> c \<ge> CHR 0x7F then
        [BACKSLASH, CHR ''x'', hex_digit (of_char c div 16), hex_digit (of_char c)]
      else [c])"

definition Quote :: "string \<Rightarrow> string" where
  "Quote s = [DQUOTE] @ concat (map quote_byte s) @ [DQUOTE]"

text \<open>\<open>(*strconv.NumError).Error()\<close>.\<close>

definition NumError_Error :: "string \<Rightarrow> string \<Rightarrow> NumErr \<Rightarrow> string" where
  "NumError_Error func num err =
     ''strconv.'' @ func @ '': parsing '' @ Quote num @ '': '' @
     (case err of ErrSyntax \<Rightarrow> ''invalid syntax'' | ErrRange \<Rightarrow> ''value out of range'')"

text \<open>
  \<open>strconv.ParseInt(s, 10, 64)\<close>: an optional sign and decimal digits; the digits are
  read from the left into an unsigned 64-bit number, and the first byte that is no digit
  or that overflows it decides the error.
\<close>

fun ParseUint_loop :: "int \<Rightarrow> string \<Rightarrow> NumErr + int" where
  "ParseUint_loop n [] = Inr n"
| "ParseUint_loop n (c # cs) =
     (if \<not> isDigit c then Inl ErrSyntax
      else if n \<ge> (2 ^ 64 - 1) div 10 + 1 then Inl ErrRange
      else if n * 10 + digit_val c \<ge> 2 ^ 64 then Inl ErrRange
      else ParseUint_loop (n * 10 + digit_val c) cs)"

definition ParseInt :: "string \<Rightarrow> NumErr + int64" where
  "ParseInt s =
     (if s = [] then Inl ErrSyntax
      else
        let neg = (hd s = CHR ''-'');
            ds = (if hd s = CHR ''+'' \<or> hd s = CHR ''-'' then tl s else s)
        in if ds = [] then Inl ErrSyntax
           else
             (case ParseUint_loop 0 ds of
                Inl e \<Rightarrow> Inl e
              | Inr un \<Rightarrow>
                  if \<not> neg \<and> un \<ge> 2 ^ 63 then Inl ErrRange
                  else if neg \<and> un > 2 ^ 63 then Inl ErrRange
                  else Inr (if neg then - of_int un else of_int un)))"

text \<open>
  \<open>strconv.ParseFloat(s, 64)\<close> on decimal literals: an optional sign, digits with at
  most one point and at least one digit, an optional exponent (\<open>e\<close> or \<open>E\<close>, an optional
  sign, at least one digit), and nothing after it; \<open>ErrRange\<close> when the value rounds
  beyond the largest float, that is from \<open>2^1024 - 2^970\<close> on.  The exponent is read as
  Go reads it, no further once it has reached 10000.  The other forms Go accepts
  (hexadecimal floats, infinities, NaN, underscores between digits) are left out: the
  scanner never produces their first bytes.
\<close>

fun exp_loop :: "int \<Rightarrow> string \<Rightarrow> int" where
  "exp_loop e [] = e"
| "exp_loop e (c # cs) = exp_loop (if e < 10000 then e * 10 + digit_val c else e) cs"

fun dec_value :: "int \<Rightarrow> string \<Rightarrow> int" where
  "dec_value n [] = n"
| "dec_value n (c # cs) = dec_value (n * 10 + digit_val c) cs"

definition float_overflows :: "int \<Rightarrow> int \<Rightarrow> bool" where
  "float_overflows m e =
     (if e \<ge> 0 then m * 10 ^ nat e \<ge> 2 ^ 1024 - 2 ^ 970
      else m \<ge> (2 ^ 1024 - 2 ^ 970) * 10 ^ nat (- e))"

definition ParseFloat :: "string \<Rightarrow> NumErr + float64" where
  "ParseFloat s =
     (let neg = (s \<noteq> [] \<and> hd s = CHR ''-'');
          s1 = (if s \<noteq> [] \<and> (hd s = CHR ''+'' \<or> hd s = CHR ''-'') then tl s else s);
          ip = takeWhile isDigit s1;
          s2 = dropWhile isDigit s1;
          sawdot = (s2 \<noteq> [] \<and> hd s2 = CHR ''.'');
          fp = (if sawdot then takeWhile isDigit (tl s2) else []);
          s3 = (if sawdot then dropWhile isDigit (tl s2) else s2)
      in if ip @ fp = [] then Inl ErrSyntax
         else if s3 \<noteq> [] \<and> (hd s3 = CHR ''e'' \<or> hd s3 = CHR ''E'') then
           (let s4 = tl s3;
                eneg = (s4 \<noteq> [] \<and> hd s4 = CHR ''-'');
                s5 = (if s4 \<noteq> [] \<and> (hd s4 = CHR ''+'' \<or> hd s4 = CHR ''-'') then tl s4 else s4);
                ed = takeWhile isDigit s5;
                e = exp_loop 0 ed;
                ex = (if eneg then - e else e) - int (length fp);
                m = dec_value 0 (ip @ fp)
            in if ed = [] \<or> dropWhile isDigit s5 \<noteq> [] then Inl ErrSyntax
               else if float_overflows m ex then Inl ErrRange
               else Inr (Float64 neg m ex))
         else if s3 \<noteq> [] then Inl ErrSyntax
         else
           (let m = dec_value 0 (ip @ fp); ex = - int (length fp)
            in if float_overflows m ex then Inl ErrRange else Inr (Float64 neg m ex)))"

subsection \<open>Comments\<close>

text \<open>The loop of the single line comment: up to the end of the line or of the input.\<close>

function skip_line :: "string \<Rightarrow> int \<Rightarrow> int option" where
  "skip_line s off =
     do {
       c \<leftarrow> at s off;
       if c \<noteq> NUL \<and> c \<noteq> CR \<and> c \<noteq> LF then skip_line s (off + 1) else Some off
     }"
  by pat_completeness auto
termination
  by (relation "measure (\<lambda>(s, off). nat (int (length s) - off))")
     (auto simp: at_def split: if_splits)

declare skip_line.simps [simp del]

definition line_comment :: "gesLex \<Rightarrow> gesLex option" where
  "line_comment ctx =
     do {
       off \<leftarrow> skip_line (source ctx) (offset ctx + 2);
       c \<leftarrow> at (source ctx) off;
       crlf \<leftarrow> (if c = CR then do { n \<leftarrow> at (source ctx) (off + 1); Some (n = LF) }
                else Some False);
       let off1 = (if crlf then off + 1 else off);
       c1 \<leftarrow> at (source ctx) off1;
       Some (if c1 \<noteq> NUL then ctx\<lparr>lineNumber := lineNumber ctx + 1, offset := off1 + 1\<rparr>
             else ctx\<lparr>offset := off1\<rparr>)
     }"

text \<open>
  The loop of the multi-line comment, on the offset and the line number: it stops on
  the NUL or on \<open>*/\<close>.
\<close>

function skip_block :: "string \<Rightarrow> int \<Rightarrow> int \<Rightarrow> (int \<times> int) option" where
  "skip_block s off ln =
     do {
       c \<leftarrow> at s off;
       closing \<leftarrow> (if c = NUL then Some True
                   else if c \<noteq> CHR ''*'' then Some False
                   else do { n \<leftarrow> at s (off + 1); Some (n = CHR ''/'') });
       if c = NUL \<or> closing then Some (off, ln)
       else do {
         let ln1 = (if c = LF then ln + 1 else ln);
         crlf \<leftarrow> (if c = CR then do { n \<leftarrow> at s (off + 1); Some (n = LF) } else Some False);
         let off1 = (if crlf then off + 1 else off);
         let ln2 = (if c = CR then ln1 + 1 else ln1);
         skip_block s (off1 + 1) ln2
       }
     }"
  by pat_completeness auto
termination
  by (relation "measure (\<lambda>(s, off, ln). nat (int (length s) - off))")
     (auto simp: at_def split: if_splits)

declare skip_block.simps [simp del]

text \<open>The result is \<open>Inl\<close> the scanner with its error set, or \<open>Inr\<close> the scanner after \<open>*/\<close>.\<close>

definition block_comment :: "gesLex \<Rightarrow> (gesLex + gesLex) option" where
  "block_comment ctx =
     do {
       (off, ln) \<leftarrow> skip_block (source ctx) (offset ctx + 2) (lineNumber ctx);
       c \<leftarrow> at (source ctx) off;
       Some (if c = NUL
             then Inl (ctx\<lparr>offset := off, lineNumber := ln,
                        error := Some ''Unterminated multi-line comment''\<rparr>)
             else Inr (ctx\<lparr>offset := off + 2, lineNumber := ln\<rparr>))
     }"

subsection \<open>Identifiers and keywords\<close>

definition identBreak :: "char \<Rightarrow> bool" where
  "identBreak ch =
     ((ch < CHR ''a'' \<or> ch > CHR ''z'') \<and> (ch < CHR ''A'' \<or> ch > CHR ''Z'') \<and>
      (ch < CHR ''0'' \<or> ch > CHR ''9'') \<and> ch \<noteq> CHR ''$'' \<and> ch \<noteq> CHR ''_'')"

function ident_end :: "string \<Rightarrow> int \<Rightarrow> int option" where
  "ident_end s eso =
     do {
       ch \<leftarrow> at s eso;
       if ch \<noteq> NUL \<and> \<not> identBreak ch then ident_end s (eso + 1) else Some eso
     }"
  by pat_completeness auto
termination
  by (relation "measure (\<lambda>(s, eso). nat (int (length s) - eso))")
     (auto simp: at_def split: if_splits)

declare ident_end.simps [simp del]

definition lex_identifier ::
  "gesLex \<Rightarrow> gesSymType \<Rightarrow> (token \<times> gesSymType \<times> gesLex) option" where
  "lex_identifier ctx lval =
     do {
       eso \<leftarrow> ident_end (source ctx) (offset ctx);
       word \<leftarrow> slice (source ctx) (offset ctx) eso;
       (case find (\<lambda>(w, t). int (length w) = eso - offset ctx \<and> word = w) keywords of
          Some (w, t) \<Rightarrow>
            Some (t, lval,
                  ctx\<lparr>offset := eso,
                      regexValid := (if t = GTOK_CASE then True else regexValid ctx)\<rparr>)
        | None \<Rightarrow>
            Some (GTOK_IDENTIFIER, lval\<lparr>parseType := PARSED_IDENTIFIER, identifier := word\<rparr>,
                  ctx\<lparr>offset := eso\<rparr>))
     }"

subsection \<open>Numeric literals\<close>

text \<open>
  The digit loop \<open>for isHex(ch)\<close>, on the value, the offset \<open>eso\<close> and the byte there.
\<close>

function digits_loop ::
  "string \<Rightarrow> int \<Rightarrow> int64 \<Rightarrow> int \<Rightarrow> char \<Rightarrow> (int64 \<times> int \<times> char) option" where
  "digits_loop s radix ival eso ch =
     (if isHex ch then
        (if radix = 16 then
           do { c \<leftarrow> at s (eso + 1);
                digits_loop s radix (push_bit 4 ival OR hexToInt ch) (eso + 1) c }
         else if radix = 8 then
           (if ch \<ge> CHR ''0'' \<and> ch \<le> CHR ''7'' then
              do { c \<leftarrow> at s (eso + 1);
                   digits_loop s radix (push_bit 3 ival OR (of_char ch - 48)) (eso + 1) c }
            else Some (ival, eso, ch))
         else
           (if ch < CHR ''0'' \<or> ch > CHR ''9'' then Some (ival, eso, ch)
            else do { c \<leftarrow> at s (eso + 1); digits_loop s radix ival (eso + 1) c }))
      else Some (ival, eso, ch))"
  by pat_completeness auto
termination
  by (relation "measure (\<lambda>(s, radix, ival, eso, ch). nat (int (length s) - eso))")
     (auto simp: at_def split: if_splits)

declare digits_loop.simps [simp del]

text \<open>The loop that extends a literal to a floating one.\<close>

function float_span :: "string \<Rightarrow> int \<Rightarrow> char \<Rightarrow> (int \<times> char) option" where
  "float_span s eso ch =
     (if (ch \<ge> CHR ''0'' \<and> ch \<le> CHR ''9'') \<or> ch = CHR ''.'' \<or> ch = CHR ''e'' \<or> ch = CHR ''E''
         \<or> ch = CHR ''-''
      then do { c \<leftarrow> at s (eso + 1); float_span s (eso + 1) c }
      else Some (eso, ch))"
  by pat_completeness auto
termination
  by (relation "measure (\<lambda>(s, eso, ch). nat (int (length s) - eso))")
     (auto simp: at_def split: if_splits)

declare float_span.simps [simp del]

text \<open>
  The radix probe after a leading \<open>0\<close>: the offset after it, the byte there and the radix.
\<close>

definition radix_probe :: "gesLex \<Rightarrow> char \<Rightarrow> char \<Rightarrow> (int \<times> char \<times> int) option" where
  "radix_probe ctx ch nch =
     (if ch = CHR ''0'' then
        do {
          c1 \<leftarrow> at (source ctx) (offset ctx + 1);
          if nch = CHR ''x'' \<or> nch = CHR ''X'' then
            do { c2 \<leftarrow> at (source ctx) (offset ctx + 2); Some (offset ctx + 2, c2, 16) }
          else if c1 \<ge> CHR ''0'' \<and> c1 \<le> CHR ''9'' then Some (offset ctx + 1, c1, 8)
          else Some (offset ctx + 1, c1, 10)
        }
      else Some (offset ctx, ch, 10))"

definition lex_number ::
  "gesLex \<Rightarrow> gesSymType \<Rightarrow> char \<Rightarrow> char \<Rightarrow> (token \<times> gesSymType \<times> gesLex) option" where
  "lex_number ctx lval ch nch =
     do {
       (off1, ch1, radix1) \<leftarrow> radix_probe ctx ch nch;
       (ival, eso1, ch2) \<leftarrow> digits_loop (source ctx) radix1 0 off1 ch1;
       let (off, eso, radix, ch3) =
             (if eso1 = off1 then
                (if radix1 = 16 then (off1 - 2, eso1 - 1, 10, CHR ''x'')
                 else (off1 - 1, eso1, radix1, ch2))
              else (off1, eso1, radix1, ch2));
       if radix = 8 \<or> radix = 16 then
         Some (GTOK_LITERAL, lval\<lparr>parseType := PARSED_LITERAL, literal := Some (IntegerType ival)\<rparr>,
               ctx\<lparr>offset := eso\<rparr>)
       else if ch3 \<noteq> CHR ''.'' \<and> ch3 \<noteq> CHR ''e'' \<and> ch3 \<noteq> CHR ''E'' then
         do {
           sval \<leftarrow> slice (source ctx) off eso;
           (case ParseInt sval of
              Inl err \<Rightarrow>
                Some (GTOK_ERROR, lval,
                      ctx\<lparr>offset := off,
                          error := Some (''Invalid literal integer: '' @
                                         NumError_Error ''ParseInt'' sval err)\<rparr>)
            | Inr v \<Rightarrow>
                Some (GTOK_LITERAL,
                      lval\<lparr>parseType := PARSED_LITERAL, literal := Some (IntegerType v)\<rparr>,
                      ctx\<lparr>offset := eso\<rparr>))
         }
       else
         do {
           (eso2, ch4) \<leftarrow> float_span (source ctx) eso ch3;
           sval \<leftarrow> slice (source ctx) off eso2;
           (case ParseFloat sval of
              Inl err \<Rightarrow>
                Some (GTOK_ERROR, lval,
                      ctx\<lparr>offset := off,
                          error := Some (''Invalid literal float: '' @
                                         NumError_Error ''ParseFloat'' sval err)\<rparr>)
            | Inr d \<Rightarrow>
                Some (GTOK_LITERAL,
                      lval\<lparr>parseType := PARSED_LITERAL, literal := Some (NumberType d)\<rparr>,
                      ctx\<lparr>offset := eso2\<rparr>))
         }
     }"

subsection \<open>String literals\<close>

text \<open>
  The \<open>switch\<close> on the byte after a backslash, at offset \<open>eso\<close>: an error message, or
  the rune \<open>wch\<close> that is appended, the offset of the last byte of the escape and the
  line number.  \<open>wch\<close> starts as a space and the two line break cases leave it so.
\<close>

definition escape :: "string \<Rightarrow> int \<Rightarrow> int \<Rightarrow> (string + (32 word \<times> int \<times> int)) option" where
  "escape s eso ln =
     do {
       ch \<leftarrow> at s eso;
       if ch = CHR ''b'' then Some (Inr (of_char BS, eso, ln))
       else if ch = CHR ''f'' then Some (Inr (of_char FF, eso, ln))
       else if ch = CHR ''n'' then Some (Inr (of_char LF, eso, ln))
       else if ch = CHR ''t'' then Some (Inr (of_char TAB, eso, ln))
       else if ch = CHR ''v'' then Some (Inr (of_char VT, eso, ln))
       else if ch = BACKSLASH then Some (Inr (of_char BACKSLASH, eso, ln))
       else if ch = SQUOTE then Some (Inr (of_char SQUOTE, eso, ln))
       else if ch = DQUOTE then Some (Inr (of_char DQUOTE, eso, ln))
       else if ch = CR then
         do { n \<leftarrow> at s (eso + 1);
              Some (Inr (of_char (CHR '' ''), if n = LF then eso + 1 else eso, ln + 1)) }
       else if ch = LF then Some (Inr (of_char (CHR '' ''), eso, ln + 1))
       else if ch = CHR ''x'' \<or> ch = CHR ''X'' then
         do {
           h1 \<leftarrow> at s (eso + 1);
           if \<not> isHex h1 then Some (Inl ''Invalid hex character sequence'')
           else do {
             h2 \<leftarrow> at s (eso + 2);
             if \<not> isHex h2 then Some (Inl ''Invalid hex character sequence'')
             else Some (Inr (ucast (push_bit 4 (hexToInt h1) OR hexToInt h2), eso + 2, ln))
           }
         }
       else if ch = CHR ''u'' \<or> ch = CHR ''U'' then
         do {
           h1 \<leftarrow> at s (eso + 1);
           if \<not> isHex h1 then Some (Inl ''Invalid Unicode character sequence'')
           else do {
             h2 \<leftarrow> at s (eso + 2);
             if \<not> isHex h2 then Some (Inl ''Invalid Unicode character sequence'')
             else do {
               h3 \<leftarrow> at s (eso + 3);
               if \<not> isHex h3 then Some (Inl ''Invalid Unicode character sequence'')
               else do {
                 h4 \<leftarrow> at s (eso + 4);
                 if \<not> isHex h4 then Some (Inl ''Invalid Unicode character sequence'')
                 else Some (Inr (ucast (push_bit 12 (hexToInt h1) OR push_bit 8 (hexToInt h2)
                                         OR push_bit 4 (hexToInt h3) OR hexToInt h4),
                                 eso + 4, ln))
               }
             }
           }
         }
       else if isOctal ch then
         do {
           let w0 = (ucast (of_char ch - 48 :: 8 word) :: 32 word);
           c1 \<leftarrow> at s (eso + 1);
           if isOctal c1 then
             do {
               let w1 = push_bit 3 w0 OR ucast (of_char c1 - 48 :: 8 word);
               c2 \<leftarrow> at s (eso + 2);
               if isOctal c2
               then Some (Inr (push_bit 3 w1 OR ucast (of_char c2 - 48 :: 8 word), eso + 2, ln))
               else Some (Inr (w1, eso + 1, ln))
             }
           else Some (Inr (w0, eso, ln))
         }
       else Some (Inl ''Invalid escape character sequence'')
     }"

lemma escape_advances: "escape s eso ln = Some (Inr (wch, eso', ln')) \<Longrightarrow> eso \<le> eso'"
  by (auto simp: escape_def Let_def split: bind_splits if_splits)

text \<open>
  The loop \<open>for ch != qch\<close>, on the offset \<open>eso\<close>, the byte there, the bytes decoded
  so far and the line number: an error message or the offset of the closing quote with
  the decoded bytes, and the line number, which the scanner keeps in both cases.
\<close>

function string_loop ::
  "string \<Rightarrow> char \<Rightarrow> int \<Rightarrow> char \<Rightarrow> string \<Rightarrow> int \<Rightarrow> ((string + (int \<times> string)) \<times> int) option"
  where
  "string_loop s qch eso ch str ln =
     (if ch = qch then Some (Inr (eso, str), ln)
      else if ch = CR \<or> ch = LF \<or> ch = NUL then Some (Inl ''Unterminated string literal'', ln)
      else if ch = BACKSLASH then
        do {
          r \<leftarrow> escape s (eso + 1) ln;
          (case r of
             Inl msg \<Rightarrow> Some (Inl msg, ln)
           | Inr (wch, eso1, ln1) \<Rightarrow>
               do { c \<leftarrow> at s (eso1 + 1);
                    string_loop s qch (eso1 + 1) c (str @ utf8 wch) ln1 })
        }
      else do { c \<leftarrow> at s (eso + 1); string_loop s qch (eso + 1) c (str @ [ch]) ln })"
  by pat_completeness auto
termination
  by (relation "measure (\<lambda>(s, qch, eso, ch, str, ln). nat (int (length s) - eso))")
     (auto simp: at_def split: if_splits dest: escape_advances)

declare string_loop.simps [simp del]

definition lex_string ::
  "gesLex \<Rightarrow> gesSymType \<Rightarrow> char \<Rightarrow> (token \<times> gesSymType \<times> gesLex) option" where
  "lex_string ctx lval qch =
     do {
       c \<leftarrow> at (source ctx) (offset ctx + 1);
       (r, ln) \<leftarrow> string_loop (source ctx) qch (offset ctx + 1) c [] (lineNumber ctx);
       (case r of
          Inl msg \<Rightarrow> Some (GTOK_ERROR, lval, ctx\<lparr>lineNumber := ln, error := Some msg\<rparr>)
        | Inr (eso, str) \<Rightarrow>
            Some (GTOK_LITERAL,
                  lval\<lparr>parseType := PARSED_LITERAL, literal := Some (StringType str)\<rparr>,
                  ctx\<lparr>lineNumber := ln, offset := eso + 1\<rparr>))
     }"

subsection \<open>Regex literals\<close>

text \<open>The loop \<open>for ch != '/'\<close>: \<open>None\<close> inside for an unterminated pattern.\<close>

function regex_loop :: "string \<Rightarrow> int \<Rightarrow> char \<Rightarrow> int option option" where
  "regex_loop s eso ch =
     (if ch = CHR ''/'' then Some (Some eso)
      else if ch = CR \<or> ch = LF \<or> ch = NUL then Some None
      else
        do {
          escaped \<leftarrow> (if ch = BACKSLASH then do { n \<leftarrow> at s (eso + 1); Some (n \<noteq> NUL) }
                      else Some False);
          let eso1 = (if escaped then eso + 1 else eso);
          c \<leftarrow> at s (eso1 + 1);
          regex_loop s (eso1 + 1) c
        })"
  by pat_completeness auto
termination
  by (relation "measure (\<lambda>(s, eso, ch). nat (int (length s) - eso))")
     (auto simp: at_def split: if_splits)

declare regex_loop.simps [simp del]

definition lex_regex :: "gesLex \<Rightarrow> gesSymType \<Rightarrow> (token \<times> gesSymType \<times> gesLex) option" where
  "lex_regex ctx lval =
     do {
       c \<leftarrow> at (source ctx) (offset ctx + 1);
       r \<leftarrow> regex_loop (source ctx) (offset ctx + 1) c;
       (case r of
          None \<Rightarrow>
            Some (GTOK_ERROR, lval,
                  ctx\<lparr>offset := offset ctx + 1, error := Some ''Unterminated regex pattern''\<rparr>)
        | Some eso \<Rightarrow>
            Some (GTOK_REGEXP, lval\<lparr>parseType := PARSED_REGEXP\<rparr>, ctx\<lparr>offset := eso + 1\<rparr>))
     }"

subsection \<open>Operators\<close>

text \<open>
  The \<open>switch\<close> on the operators: the token (0 when no case applies), the offset
  \<open>eso\<close> after it, the symbol and the scanner, in which \<open>=~\<close> and \<open>!~\<close> set
  \<open>regexValid\<close>.
\<close>

definition op_lt ::
  "gesLex \<Rightarrow> gesSymType \<Rightarrow> char \<Rightarrow> int \<Rightarrow> (token \<times> int \<times> gesSymType \<times> gesLex) option" where
  "op_lt ctx lval nch eso =
     (if nch = CHR ''='' then Some (GTOK_LTEQ, eso + 1, lval, ctx)
      else if nch = CHR ''<'' then
        do { n \<leftarrow> at (source ctx) (eso + 1);
             if n = CHR ''='' then Some (GTOK_ASSIGNOP, eso + 2, lval\<lparr>assignOp := GTOK_LTLT\<rparr>, ctx)
             else Some (GTOK_LTLT, eso + 1, lval, ctx) }
      else Some (GTOK_LT, eso, lval, ctx))"

definition op_gt ::
  "gesLex \<Rightarrow> gesSymType \<Rightarrow> char \<Rightarrow> int \<Rightarrow> (token \<times> int \<times> gesSymType \<times> gesLex) option" where
  "op_gt ctx lval nch eso =
     (if nch = CHR ''='' then Some (GTOK_GTEQ, eso + 1, lval, ctx)
      else if nch = CHR ''>'' then
        do { n \<leftarrow> at (source ctx) (eso + 1);
             if n = CHR ''>'' then
               do { m \<leftarrow> at (source ctx) (eso + 2);
                    if m = CHR ''=''
                    then Some (GTOK_ASSIGNOP, eso + 3, lval\<lparr>assignOp := GTOK_GTGTGT\<rparr>, ctx)
                    else Some (GTOK_GTGTGT, eso + 2, lval, ctx) }
             else if n = CHR ''=''
             then Some (GTOK_ASSIGNOP, eso + 2, lval\<lparr>assignOp := GTOK_GTGT\<rparr>, ctx)
             else Some (GTOK_GTGT, eso + 1, lval, ctx) }
      else Some (GTOK_GT, eso, lval, ctx))"

definition op_eq ::
  "gesLex \<Rightarrow> gesSymType \<Rightarrow> char \<Rightarrow> int \<Rightarrow> (token \<times> int \<times> gesSymType \<times> gesLex) option" where
  "op_eq ctx lval nch eso =
     (if nch = CHR ''='' then
        do { n \<leftarrow> at (source ctx) (eso + 1);
             if n = CHR ''='' then Some (GTOK_EQEQEQ, eso + 2, lval, ctx)
             else Some (GTOK_EQEQ, eso + 1, lval, ctx) }
      else if nch = CHR ''~'' then Some (GTOK_REGEQ, eso + 1, lval, ctx\<lparr>regexValid := True\<rparr>)
      else Some (GTOK_ASSIGNOP, eso, lval\<lparr>assignOp := 0\<rparr>, ctx))"

definition op_not ::
  "gesLex \<Rightarrow> gesSymType \<Rightarrow> char \<Rightarrow> int \<Rightarrow> (token \<times> int \<times> gesSymType \<times> gesLex) option" where
  "op_not ctx lval nch eso =
     (if nch = CHR ''='' then
        do { n \<leftarrow> at (source ctx) (eso + 1);
             if n = CHR ''='' then Some (GTOK_NOTEQEQ, eso + 2, lval, ctx)
             else Some (GTOK_NOTEQ, eso + 1, lval, ctx) }
      else if nch = CHR ''~'' then Some (GTOK_REGNOTEQ, eso + 1, lval, ctx\<lparr>regexValid := True\<rparr>)
      else Some (GTOK_NOT, eso, lval, ctx))"

text \<open>
  The operators with a doubled form and a compound assignment (\<open>+ - & |\<close>), and those
  with a compound assignment only (\<open>* / % ^\<close>).
\<close>

definition op_double ::
  "gesLex \<Rightarrow> gesSymType \<Rightarrow> char \<Rightarrow> char \<Rightarrow> int \<Rightarrow> token \<Rightarrow> token \<Rightarrow>
   (token \<times> int \<times> gesSymType \<times> gesLex) option" where
  "op_double ctx lval ch nch eso doubled bare =
     (if nch = ch then Some (doubled, eso + 1, lval, ctx)
      else if nch = CHR ''='' then Some (GTOK_ASSIGNOP, eso + 1, lval\<lparr>assignOp := bare\<rparr>, ctx)
      else Some (bare, eso, lval, ctx))"

definition op_assign ::
  "gesLex \<Rightarrow> gesSymType \<Rightarrow> char \<Rightarrow> int \<Rightarrow> token \<Rightarrow>
   (token \<times> int \<times> gesSymType \<times> gesLex) option" where
  "op_assign ctx lval nch eso bare =
     (if nch = CHR ''='' then Some (GTOK_ASSIGNOP, eso + 1, lval\<lparr>assignOp := bare\<rparr>, ctx)
      else Some (bare, eso, lval, ctx))"

definition op_switch ::
  "gesLex \<Rightarrow> gesSymType \<Rightarrow> char \<Rightarrow> char \<Rightarrow> (token \<times> int \<times> gesSymType \<times> gesLex) option" where
  "op_switch ctx lval ch nch =
     (let eso = offset ctx + 1 in
      if ch = CHR ''{'' then Some (GTOK_LC, eso, lval, ctx)
      else if ch = CHR ''}'' then Some (GTOK_RC, eso, lval, ctx)
      else if ch = CHR ''('' then Some (GTOK_LP, eso, lval, ctx)
      else if ch = CHR '')'' then Some (GTOK_RP, eso, lval, ctx)
      else if ch = CHR ''['' then Some (GTOK_LB, eso, lval, ctx)
      else if ch = CHR '']'' then Some (GTOK_RB, eso, lval, ctx)
      else if ch = CHR ''.'' then Some (GTOK_DOT, eso, lval, ctx)
      else if ch = CHR '';'' then Some (GTOK_SEMI, eso, lval, ctx)
      else if ch = CHR '','' then Some (GTOK_COMMA, eso, lval, ctx)
      else if ch = CHR ''~'' then Some (GTOK_TILDE, eso, lval, ctx)
      else if ch = CHR ''?'' then Some (GTOK_QMARK, eso, lval, ctx)
      else if ch = CHR '':'' then Some (GTOK_COLON, eso, lval, ctx)
      else if ch = CHR ''<'' then op_lt ctx lval nch eso
      else if ch = CHR ''>'' then op_gt ctx lval nch eso
      else if ch = CHR ''='' then op_eq ctx lval nch eso
      else if ch = CHR ''!'' then op_not ctx lval nch eso
      else if ch = CHR ''+'' then op_double ctx lval ch nch eso GTOK_INCR GTOK_ADD
      else if ch = CHR ''-'' then op_double ctx lval ch nch eso GTOK_DECR GTOK_SUB
      else if ch = CHR ''*'' then op_assign ctx lval nch eso GTOK_MULT
      else if ch = CHR ''/'' then op_assign ctx lval nch eso GTOK_DIV
      else if ch = CHR ''%'' then op_assign ctx lval nch eso GTOK_MOD
      else if ch = CHR ''&'' then op_double ctx lval ch nch eso GTOK_ANDAND GTOK_AND
      else if ch = CHR ''|'' then op_double ctx lval ch nch eso GTOK_OROR GTOK_OR
      else if ch = CHR ''^'' then op_assign ctx lval nch eso GTOK_XOR
      else Some (0, eso, lval, ctx))"

definition lex_operator ::
  "gesLex \<Rightarrow> gesSymType \<Rightarrow> char \<Rightarrow> char \<Rightarrow> (token \<times> gesSymType \<times> gesLex) option" where
  "lex_operator ctx lval ch nch =
     do {
       (token, eso, lval1, ctx1) \<leftarrow> op_switch ctx lval ch nch;
       if token \<noteq> 0 then Some (token, lval1, ctx1\<lparr>offset := eso\<rparr>)
       else Some (GTOK_ERROR, lval1, ctx1)
     }"

subsection \<open>The scanner\<close>

lemma skip_line_advances: "skip_line s off = Some off' \<Longrightarrow> off \<le> off'"
proof (induction s off rule: skip_line.induct)
  case (1 s off)
  from "1.prems" show ?case
    by (subst (asm) skip_line.simps) (auto split: bind_splits if_splits dest: "1.IH")
qed

lemma line_comment_advances:
  "line_comment ctx = Some ctx' \<Longrightarrow> source ctx' = source ctx \<and> offset ctx < offset ctx'"
  by (auto simp: line_comment_def Let_def split: bind_splits if_splits
      dest!: skip_line_advances)

lemma skip_block_advances: "skip_block s off ln = Some (off', ln') \<Longrightarrow> off \<le> off'"
proof (induction s off ln rule: skip_block.induct)
  case (1 s off ln)
  from "1.prems" show ?case
    by (subst (asm) skip_block.simps)
       (auto simp: Let_def split: bind_splits if_splits dest: "1.IH")
qed

lemma block_comment_advances:
  "block_comment ctx = Some (Inr ctx') \<Longrightarrow> source ctx' = source ctx \<and> offset ctx < offset ctx'"
  by (auto simp: block_comment_def split: bind_splits if_splits prod.splits
      dest!: skip_block_advances)

text \<open>
  The loop \<open>for true\<close> of \<open>lex\<close>: white space, line breaks and comments go around it,
  everything else leaves it with a token.  On a CR before an LF the source steps to the
  LF and lets its next test count the line break: the two steps are one branch here.
\<close>

function lex_loop :: "gesLex \<Rightarrow> gesSymType \<Rightarrow> (token \<times> gesSymType \<times> gesLex) option" where
  "lex_loop ctx lval =
     do {
       ch \<leftarrow> at (source ctx) (offset ctx);
       if ch = NUL then Some (0, lval, ctx)
       else do {
         nch \<leftarrow> at (source ctx) (offset ctx + 1);
         if ch = CHR '' '' \<or> ch = TAB then lex_loop (ctx\<lparr>offset := offset ctx + 1\<rparr>) lval
         else if ch = CR \<and> nch = LF then
           lex_loop (ctx\<lparr>offset := offset ctx + 2, lineNumber := lineNumber ctx + 1\<rparr>) lval
         else if ch = CR \<or> ch = LF then
           lex_loop (ctx\<lparr>offset := offset ctx + 1, lineNumber := lineNumber ctx + 1\<rparr>) lval
         else if ch = CHR ''/'' \<and> nch = CHR ''/'' then
           do { ctx1 \<leftarrow> line_comment ctx; lex_loop ctx1 lval }
         else if ch = CHR ''/'' \<and> nch = CHR ''*'' then
           do { r \<leftarrow> block_comment ctx;
                (case r of
                   Inl ctx1 \<Rightarrow> Some (GTOK_ERROR, lval, ctx1)
                 | Inr ctx1 \<Rightarrow> lex_loop ctx1 lval) }
         else if (ch \<ge> CHR ''a'' \<and> ch \<le> CHR ''z'') \<or> (ch \<ge> CHR ''A'' \<and> ch \<le> CHR ''Z'')
                 \<or> ch = CHR ''$'' \<or> ch = CHR ''_''
         then lex_identifier ctx lval
         else if (ch \<ge> CHR ''0'' \<and> ch \<le> CHR ''9'')
                 \<or> (ch = CHR ''.'' \<and> nch \<ge> CHR ''0'' \<and> nch \<le> CHR ''9'')
         then lex_number ctx lval ch nch
         else if ch = DQUOTE \<or> ch = SQUOTE then lex_string ctx lval ch
         else if regexValid ctx \<and> ch = CHR ''/'' then lex_regex ctx lval
         else lex_operator ctx lval ch nch
       }
     }"
  by pat_completeness auto
termination
  by (relation "measure (\<lambda>(ctx, lval). nat (int (length (source ctx)) - offset ctx))")
     (auto simp: at_def split: if_splits
      dest!: line_comment_advances block_comment_advances)

declare lex_loop.simps [simp del]

definition lex :: "gesLex \<Rightarrow> gesSymType \<Rightarrow> (token \<times> gesSymType \<times> gesLex) option" where
  "lex ctx lval = lex_loop ctx (lval\<lparr>parseType := PARSED_UNDEFINED\<rparr>)"

text \<open>\<open>Lex\<close>, the function the parser calls.\<close>

definition Lex :: "gesLex \<Rightarrow> gesSymType \<Rightarrow> (token \<times> gesSymType \<times> gesLex) option" where
  "Lex ctx lval =
     do {
       let origRegValid = regexValid ctx;
       (token, lval1, ctx1) \<leftarrow> lex ctx lval;
       let ctx2 = (if origRegValid then ctx1\<lparr>regexValid := False\<rparr> else ctx1);
       Some (token, lval1\<lparr>sym_ctx := Some (parsing_ctx ctx2)\<rparr>, ctx2)
     }"

text \<open>\<open>Error\<close>, the callback of the parser.\<close>

definition Error_callback :: "gesLex \<Rightarrow> string \<Rightarrow> gesLex" where
  "Error_callback ctx msg = ctx\<lparr>error := Some msg\<rparr>"

text \<open>
  \<open>Parse\<close> after the call of \<open>gesParse\<close>, the parser goyacc generates from grammar.y,
  which is not among the sources: its return value \<open>rc\<close> and the scanner as it leaves it
  are taken as given.
\<close>

definition Parse_result :: "int \<Rightarrow> gesLex \<Rightarrow> error + Function" where
  "Parse_result rc lx =
     (if rc \<noteq> 0 then
        (case error lx of
           Some msg \<Rightarrow> Inl (Error msg)
         | None \<Rightarrow> Inl (Error ''Unknown parsing error''))
      else Inr (ctx_body (parsing_ctx lx)))"


subsection \<open>The base-16 reading of a digit run\<close>

text \<open>
  The value the spec gives a hexadecimal literal: its digits read most significant
  first, a letter counting the same in either case.
\<close>

definition hex_digits :: "(char \<times> nat) list" where
  "hex_digits =
     [(CHR ''0'', 0), (CHR ''1'', 1), (CHR ''2'', 2), (CHR ''3'', 3), (CHR ''4'', 4),
      (CHR ''5'', 5), (CHR ''6'', 6), (CHR ''7'', 7), (CHR ''8'', 8), (CHR ''9'', 9),
      (CHR ''a'', 10), (CHR ''b'', 11), (CHR ''c'', 12), (CHR ''d'', 13), (CHR ''e'', 14),
      (CHR ''f'', 15),
      (CHR ''A'', 10), (CHR ''B'', 11), (CHR ''C'', 12), (CHR ''D'', 13), (CHR ''E'', 14),
      (CHR ''F'', 15)]"

definition hex_digit_value :: "char \<Rightarrow> nat" where
  "hex_digit_value c = (case map_of hex_digits c of Some v \<Rightarrow> v | None \<Rightarrow> 0)"

fun hex_value_from :: "nat \<Rightarrow> string \<Rightarrow> nat" where
  "hex_value_from a [] = a"
| "hex_value_from a (c # cs) = hex_value_from (16 * a + hex_digit_value c) cs"

definition hex_value :: "string \<Rightarrow> nat" where
  "hex_value ds = hex_value_from 0 ds"


section \<open>Properties of the engine\<close>

lemma Exec_rounds_loop:
  "Exec_rounds env n p0 = Some prc \<Longrightarrow> Exec_loop env p0 = Exec_loop env prc"
proof (induction n arbitrary: p0)
  case 0
  then show ?case by simp
next
  case (Suc n)
  from Suc.prems obtain b where b: "body p0 = Some b"
    by (cases "body p0") simp_all
  from Suc.prems b have inr: "\<not> (pc p0 < 0 \<or> pc p0 \<ge> int (length (Code b)))"
    by (auto split: if_splits)
  from Suc.prems b inr obtain p1 where
    call: "call_ExecFn env (Code b ! nat (pc p0)) p0 = Some (None, p1)"
    and rest: "Exec_rounds env n (p1\<lparr>pc := pc p1 + 1\<rparr>) = Some prc"
    by (auto split: option.splits prod.splits if_splits)
  have "Exec_loop env p0 = Exec_loop env (p1\<lparr>pc := pc p1 + 1\<rparr>)"
    using b inr call by (subst Exec_loop.simps) simp
  with Suc.IH [OF rest] show ?case by simp
qed

lemma Exec_loop_run_seq:
  "body prc = Some b \<Longrightarrow> 0 \<le> pc prc \<Longrightarrow> k = length (Code b) - nat (pc prc) \<Longrightarrow>
   list_all (keeps_control env) (Code b) \<Longrightarrow>
   Exec_loop env prc = Some (run_seq env (drop (nat (pc prc)) (Code b)) prc)"
proof (induction k arbitrary: prc)
  case 0
  then have "int (length (Code b)) \<le> pc prc" by linarith
  with 0 show ?case by (subst Exec_loop.simps) simp
next
  case (Suc k)
  let ?op = "Code b ! nat (pc prc)"
  from Suc.prems have inr: "pc prc < int (length (Code b))" by simp
  with Suc.prems have d:
    "drop (nat (pc prc)) (Code b) = ?op # drop (nat (pc prc + 1)) (Code b)"
    by (simp add: Cons_nth_drop_Suc nat_add_distrib)
  from inr Suc.prems have kc: "keeps_control env ?op"
    by (simp add: list_all_length)
  show ?case
  proof (cases "call_ExecFn env ?op prc")
    case None
    with inr Suc.prems d show ?thesis by (subst Exec_loop.simps) simp
  next
    case (Some res)
    obtain r prc' where res: "res = (r, prc')" by (cases res)
    from kc Some res have keep: "body prc' = body prc" "pc prc' = pc prc"
      unfolding keeps_control_def by blast+
    show ?thesis
    proof (cases r)
      case None
      have "Exec_loop env (prc'\<lparr>pc := pc prc' + 1\<rparr>) =
            Some (run_seq env (drop (nat (pc (prc'\<lparr>pc := pc prc' + 1\<rparr>))) (Code b))
                    (prc'\<lparr>pc := pc prc' + 1\<rparr>))"
        using Suc.prems keep by (intro Suc.IH) auto
      with inr Suc.prems d Some res None keep show ?thesis
        by (subst Exec_loop.simps) simp
    next
      case (Some e)
      with inr Suc.prems d \<open>call_ExecFn env ?op prc = Some res\<close> res show ?thesis
        by (subst Exec_loop.simps) simp
    qed
  qed
qed

lemma Exec_loop_init:
  "list_all (keeps_control env) (Code f) \<Longrightarrow>
   Exec_loop env (Exec_init f prc0) = Some (run_seq env (Code f) (Exec_init f prc0))"
  using Exec_loop_run_seq [of "Exec_init f prc0" f _ env] by (simp add: Exec_init_def)

lemma run_seq_pc:
  "list_all (keeps_control env) ops \<Longrightarrow> run_seq env ops prc = Some (None, prc') \<Longrightarrow>
   pc prc' = pc prc + int (length ops) \<and> body prc' = body prc"
proof (induction ops arbitrary: prc)
  case Nil
  then show ?case by simp
next
  case (Cons op ops)
  from Cons.prems obtain p1 where
    call: "call_ExecFn env op prc = Some (None, p1)"
    and rest: "run_seq env ops (p1\<lparr>pc := pc p1 + 1\<rparr>) = Some (None, prc')"
    by (auto split: option.splits prod.splits)
  from Cons.prems(1) call have keep: "body p1 = body prc" "pc p1 = pc prc"
    unfolding keeps_control_def by auto
  from Cons.IH [OF _ rest] Cons.prems(1) keep show ?case by simp
qed

lemma keeps_control_PushLiteralValue:
  "ExecFn op = PushLiteralValue \<Longrightarrow> keeps_control env op"
  by (auto simp: keeps_control_def call_ExecFn_def PushLiteralValue_fn_def push_def
      split: OpData.splits if_splits)

lemma keeps_control_AdditionOperation:
  "ExecFn op = AdditionOperation \<Longrightarrow> keeps_control env op"
  by (auto simp: keeps_control_def call_ExecFn_def AdditionOperation_fn_def pop_def push_def
      Let_def split: option.splits if_splits)

lemma keeps_control_two_pushes_add:
  "list_all (keeps_control env) (Code two_pushes_add)"
  by (simp add: two_pushes_add_def push_op_def add_op_def
      keeps_control_PushLiteralValue keeps_control_AdditionOperation)

text \<open>
  C5, as the code has it: when no instruction of a Function changes the program counter
  or the body, and every instruction succeeds, \<open>Exec\<close> runs them once each in order (its
  final process is the one of the sequential run, the program counter at the end of the
  code) and, when the slot on top of the stack holds a pointer that is not nil, returns
  what it points to; it returns Undefined when the stack is empty.
\<close>

theorem Exec_returns_stack_top:
  assumes "list_all (keeps_control env) (Code f)"
    and "run_seq env (Code f) (Exec_init f prc0) = Some (None, prc)"
    and "0 < sp prc \<Longrightarrow>
           sp prc \<le> int (length (stack prc)) \<and> stack prc ! nat (sp prc - 1) = Some v"
  shows "pc prc = int (length (Code f)) \<and>
         Exec env f prc0 =
           Some (Some (Inr (if 0 < sp prc then v else Some UndefinedType), prc))"
proof -
  have pc: "pc prc = int (length (Code f))"
    using run_seq_pc [OF assms(1,2)] by (simp add: Exec_init_def)
  have loop: "Exec_loop env (Exec_init f prc0) = Some (Some (None, prc))"
    using assms(1,2) by (simp add: Exec_loop_init)
  show ?thesis
  proof (cases "0 < sp prc")
    case True
    with assms(3) loop pc show ?thesis by (simp add: Exec_def)
  next
    case False
    with loop pc show ?thesis by (simp add: Exec_def)
  qed
qed

lemma run_seq_two_pushes_add:
  "run_seq env (Code two_pushes_add) (Exec_init two_pushes_add fresh_Process) =
     Some (None, \<lparr>body = Some two_pushes_add, pc = 3,
        stack = Some (Some (IntegerType 42)) # Some (Some (IntegerType 40)) # replicate 14 None,
        sp = 1\<rparr>)"
  by (simp add: two_pushes_add_def Exec_init_def fresh_Process_def push_op_def add_op_def
      call_ExecFn_def PushLiteralValue_fn_def AdditionOperation_fn_def push_def pop_def
      addition_result_def Let_def numeral_eq_Suc)

theorem Exec_returns_stack_top_witness:
  "Exec no_behaviours two_pushes_add fresh_Process =
     Some (Some (Inr (Some (IntegerType 42)), \<lparr>body = Some two_pushes_add, pc = 3,
        stack = Some (Some (IntegerType 42)) # Some (Some (IntegerType 40)) # replicate 14 None,
        sp = 1\<rparr>))"
  using Exec_returns_stack_top [OF keeps_control_two_pushes_add run_seq_two_pushes_add,
      where env = no_behaviours and v = "Some (IntegerType 42)"]
  by simp

lemma Exec_empty:
  "Exec env \<lparr>Name = n, Code = []\<rparr> prc0 =
     Some (Some (Inr (Some UndefinedType), Exec_init \<lparr>Name = n, Code = []\<rparr> prc0))"
  by (simp add: Exec_def Exec_loop_init) (simp add: Exec_init_def)

lemma reentering_eq: "reentering i prc op = Some (None, Exec_init empty_Function prc)"
  by (simp add: reentering_def empty_Function_def Exec_empty)

lemma Exec_rounds_reentering:
  "Exec_rounds reentering 1 (Exec_init reenter_then_push fresh_Process) =
     Some \<lparr>body = Some empty_Function, pc = 1, stack = replicate 16 None, sp = 0\<rparr>"
  by (simp add: reenter_then_push_def call_ExecFn_def reentering_eq Exec_init_def
      fresh_Process_def)

lemma run_seq_reentering:
  "run_seq reentering (Code reenter_then_push) (Exec_init reenter_then_push fresh_Process) =
     Some (None, \<lparr>body = Some empty_Function, pc = 2,
        stack = Some (Some (IntegerType 1)) # replicate 15 None, sp = 1\<rparr>)"
  by (simp add: reenter_then_push_def call_ExecFn_def reentering_eq push_op_def
      PushLiteralValue_fn_def push_def Exec_init_def fresh_Process_def numeral_eq_Suc)

lemma run_seq_push_nil_pointer:
  "run_seq no_behaviours (Code push_nil_pointer) (Exec_init push_nil_pointer fresh_Process) =
     Some (None, \<lparr>body = Some push_nil_pointer, pc = 1, stack = replicate 16 None, sp = 1\<rparr>)"
  by code_simp

lemma keeps_control_push_nil_pointer:
  "list_all (keeps_control env) (Code push_nil_pointer)"
  by (simp add: push_nil_pointer_def keeps_control_PushLiteralValue)

text \<open>
  C5, as the spec has it, fails twice.  A behaviour that runs another Function in the
  process it is given returns nil, and so does the push after it whenever it is run: run
  once each in order, the two leave the Integer 1 on the stack with the program counter
  at 2, but \<open>Exec\<close> finds the program counter beyond the code of the new body, never runs
  the push and returns Undefined.  And a literal instruction whose operand is a nil
  pointer succeeds, after which \<open>Exec\<close> reads through that pointer and panics.
\<close>

theorem Exec_skips_after_reentry:
  "run_seq reentering (Code reenter_then_push) (Exec_init reenter_then_push fresh_Process) =
     Some (None, \<lparr>body = Some empty_Function, pc = 2,
        stack = Some (Some (IntegerType 1)) # replicate 15 None, sp = 1\<rparr>)
   \<and> Exec reentering reenter_then_push fresh_Process =
     Some (Some (Inr (Some UndefinedType), \<lparr>body = Some empty_Function, pc = 1,
        stack = replicate 16 None, sp = 0\<rparr>))
   \<and> run_seq no_behaviours (Code push_nil_pointer) (Exec_init push_nil_pointer fresh_Process) =
     Some (None, \<lparr>body = Some push_nil_pointer, pc = 1, stack = replicate 16 None, sp = 1\<rparr>)
   \<and> Exec no_behaviours push_nil_pointer fresh_Process = Some None"
proof -
  let ?P = "\<lparr>body = Some empty_Function, pc = 1, stack = replicate 16 None, sp = 0\<rparr>"
  have "Exec_loop reentering (Exec_init reenter_then_push fresh_Process) =
        Exec_loop reentering ?P"
    by (rule Exec_rounds_loop [of _ 1]) (rule Exec_rounds_reentering)
  also have "\<dots> = Some (Some (None, ?P))"
    by (subst Exec_loop.simps) (simp add: empty_Function_def)
  finally have "Exec reentering reenter_then_push fresh_Process =
      Some (Some (Inr (Some UndefinedType), ?P))"
    by (simp add: Exec_def)
  moreover have "Exec no_behaviours push_nil_pointer fresh_Process = Some None"
    by (simp add: Exec_def Exec_loop_init keeps_control_push_nil_pointer
        run_seq_push_nil_pointer)
  ultimately show ?thesis
    using run_seq_reentering run_seq_push_nil_pointer by simp
qed

text \<open>
  C6: when the loop of \<open>Exec\<close> has run any number of rounds, each on an instruction that
  returned nil, and the instruction it then calls returns a failure, \<open>Exec\<close> returns this
  failure and no value, and the process is as the failing instruction left it: nothing
  has run after it.
\<close>

theorem Exec_aborts_on_failure:
  assumes "Exec_rounds env n (Exec_init f prc0) = Some prc"
    and "body prc = Some b"
    and "0 \<le> pc prc" and "pc prc < int (length (Code b))"
    and "call_ExecFn env (Code b ! nat (pc prc)) prc = Some (Some e, prc')"
  shows "Exec env f prc0 = Some (Some (Inl e, prc'))"
proof -
  have "Exec_loop env (Exec_init f prc0) = Exec_loop env prc"
    using assms(1) by (rule Exec_rounds_loop)
  also have "\<dots> = Some (Some (Some e, prc'))"
    using assms(2-5) by (subst Exec_loop.simps) simp
  finally show ?thesis by (simp add: Exec_def)
qed

lemma Exec_rounds_before_failure:
  "Exec_rounds push_then_fail 1 (Exec_init failing_in_the_middle fresh_Process) =
     Some \<lparr>body = Some failing_in_the_middle, pc = 1,
        stack = Some (Some (IntegerType 1)) # replicate 15 None, sp = 1\<rparr>"
  by code_simp

theorem Exec_aborts_on_failure_witness:
  "Exec push_then_fail failing_in_the_middle fresh_Process =
     Some (Some (Inl (Error ''boom''), \<lparr>body = Some failing_in_the_middle, pc = 1,
        stack = Some (Some (IntegerType 1)) # Some (Some (IntegerType 7)) # replicate 14 None,
        sp = 2\<rparr>))"
  using Exec_aborts_on_failure [OF Exec_rounds_before_failure, of failing_in_the_middle
      "Error ''boom''"
      "\<lparr>body = Some failing_in_the_middle, pc = 1,
        stack = Some (Some (IntegerType 1)) # Some (Some (IntegerType 7)) # replicate 14 None,
        sp = 2\<rparr>"]
  by (simp add: failing_in_the_middle_def call_ExecFn_def push_then_fail_def
      PushLiteralValue_fn_def push_def numeral_eq_Suc)

text \<open>
  C4: with two values on the stack, the addition takes the top one as its first operand
  and the one below as its second, puts their sum (the wrapping sum of two Integers,
  Undefined for every other pair) in the place of the lower one, and returns no failure.
\<close>

theorem AdditionOperation_pops_top_first:
  assumes "2 \<le> sp prc" and "sp prc \<le> int (length (stack prc))"
    and "stack prc ! nat (sp prc - 1) = Some (Some first)"
    and "stack prc ! nat (sp prc - 2) = Some (Some second)"
  shows "AdditionOperation_fn prc op =
           Some (None, prc\<lparr>sp := sp prc - 1,
                   stack := (stack prc)[nat (sp prc - 2) := Some (Some (add_values first second))]\<rparr>)"
  using assms
  by (cases first; cases second)
     (auto simp: AdditionOperation_fn_def pop_def push_def addition_result_def Let_def)

theorem AdditionOperation_pops_top_first_witness:
  "AdditionOperation_fn
     \<lparr>body = None, pc = 0,
      stack = [Some (Some (IntegerType 1)), Some (Some (IntegerType 0x7FFFFFFFFFFFFFFF))],
      sp = 2\<rparr> add_op =
   Some (None, \<lparr>body = None, pc = 0,
      stack = [Some (Some (IntegerType 0x8000000000000000)),
               Some (Some (IntegerType 0x7FFFFFFFFFFFFFFF))],
      sp = 1\<rparr>)
   \<and> AdditionOperation_fn
     \<lparr>body = None, pc = 0,
      stack = [Some (Some (StringType ''a'')), Some (Some (IntegerType 1))], sp = 2\<rparr> add_op =
   Some (None, \<lparr>body = None, pc = 0,
      stack = [Some (Some UndefinedType), Some (Some (IntegerType 1))], sp = 1\<rparr>)"
  using AdditionOperation_pops_top_first [of
      "\<lparr>body = None, pc = 0,
        stack = [Some (Some (IntegerType 1)), Some (Some (IntegerType 0x7FFFFFFFFFFFFFFF))],
        sp = 2\<rparr>"
      "IntegerType 0x7FFFFFFFFFFFFFFF" "IntegerType 1" add_op]
    AdditionOperation_pops_top_first [of
      "\<lparr>body = None, pc = 0,
        stack = [Some (Some (StringType ''a'')), Some (Some (IntegerType 1))], sp = 2\<rparr>"
      "IntegerType 1" "StringType ''a''" add_op]
  by simp

lemma run_seq_seventeen_pushes:
  "run_seq env (Code seventeen_pushes) (Exec_init seventeen_pushes fresh_Process) = None"
  by code_simp

lemma run_seq_lone_addition:
  "run_seq env (Code lone_addition) (Exec_init lone_addition fresh_Process) = None"
  by code_simp

lemma keeps_control_seventeen_pushes:
  "list_all (keeps_control env) (Code seventeen_pushes)"
  by (simp add: seventeen_pushes_def push_op_def keeps_control_PushLiteralValue
      list_all_length)

lemma keeps_control_lone_addition:
  "list_all (keeps_control env) (Code lone_addition)"
  by (simp add: lone_addition_def add_op_def keeps_control_AdditionOperation)

text \<open>
  C3: the stack has sixteen slots and neither \<open>push\<close> nor \<open>pop\<close> checks the stack
  pointer: a seventeenth push and an addition on an empty stack index outside the stack,
  which is a panic of the Go runtime and no returned failure.
\<close>

theorem Exec_stack_unchecked:
  "Exec env seventeen_pushes fresh_Process = Some None \<and>
   Exec env lone_addition fresh_Process = Some None"
  by (simp add: Exec_def Exec_loop_init keeps_control_seventeen_pushes
      keeps_control_lone_addition run_seq_seventeen_pushes run_seq_lone_addition)

section \<open>Properties of the scanner\<close>

subsection \<open>Hexadecimal literals\<close>

lemma at_append_right:
  "0 \<le> k \<Longrightarrow> at (pre @ xs) (int (length pre) + k) = at xs k"
  by (auto simp: at_def nth_append nat_add_distrib)

lemma at_append:
  "at (pre @ xs) i = (if i < int (length pre) then at pre i else at xs (i - int (length pre)))"
  by (auto simp: at_def nth_append nat_diff_distrib)

lemma at_Cons_0: "at (c # xs) 0 = Some c"
  by (simp add: at_def)

lemma at_Cons_pos: "0 < k \<Longrightarrow> at (c # xs) k = at xs (k - 1)"
  by (auto simp: at_def nth_Cons' nat_diff_distrib)

lemma at_hd: "xs \<noteq> [] \<Longrightarrow> at xs 0 = Some (hd xs)"
  by (cases xs) (simp_all add: at_def)

lemma isHex_cases: "isHex c \<Longrightarrow> c \<in> set ''0123456789abcdefABCDEF''"
proof -
  assume h: "isHex c"
  define n :: nat where "n = of_char c"
  have c: "c = char_of n" by (simp add: n_def)
  from h have "(48 \<le> n \<and> n \<le> 57) \<or> (97 \<le> n \<and> n \<le> 102) \<or> (65 \<le> n \<and> n \<le> 70)"
    by (simp add: isHex_def less_eq_char_def n_def)
  then have "n \<in> {48,49,50,51,52,53,54,55,56,57,97,98,99,100,101,102,65,66,67,68,69,70}"
    by (simp only: insert_iff empty_iff) arith
  then show ?thesis
    unfolding c by (elim insertE emptyE; hypsubst; code_simp)
qed

lemma word_shift4_or:
  fixes w d :: int64
  assumes "d < 16"
  shows "push_bit 4 w OR d = w * 16 + d"
proof -
  from assms have "d < 2 ^ 4" by simp
  then have m: "d AND mask 4 = d" by (rule less_mask_eq)
  have "push_bit 4 w AND (d AND mask 4) = 0"
    by (rule bit_eqI) (auto simp: bit_simps)
  with m have "push_bit 4 w AND d = 0" by simp
  then have "push_bit 4 w + d = push_bit 4 w OR d" by (rule disjunctive_add_eq_or)
  then show ?thesis by (simp add: push_bit_eq_mult)
qed

lemma hexToInt_value:
  assumes "isHex c"
  shows "hexToInt c = of_nat (hex_digit_value c) \<and> hexToInt c < 16"
  using isHex_cases [OF assms]
  by (simp only: set_simps insert_iff empty_iff list.set)
     (elim disjE FalseE; simp add: hexToInt_def hex_digit_value_def hex_digits_def)

lemma digits_loop_hex:
  assumes "list_all isHex ds" and "rest \<noteq> []" and "\<not> isHex (hd rest)"
  shows "digits_loop (pre @ ds @ rest) 16 (of_nat a) (int (length pre)) (hd (ds @ rest)) =
           Some (of_nat (hex_value_from a ds), int (length pre) + int (length ds), hd rest)"
  using assms
proof (induction ds arbitrary: pre a)
  case Nil
  then show ?case by (subst digits_loop.simps) simp
next
  case (Cons c ds)
  from Cons.prems have hc: "isHex c" and hds: "list_all isHex ds" by simp_all
  have nxt: "at (pre @ (c # ds) @ rest) (int (length pre) + 1) = Some (hd (ds @ rest))"
    using Cons.prems(2) by (simp add: at_append_right at_Cons_pos at_hd)
  have step: "push_bit 4 (of_nat a) OR hexToInt c = (of_nat (16 * a + hex_digit_value c) :: int64)"
  proof -
    have v: "hexToInt c = of_nat (hex_digit_value c)"
      by (rule hexToInt_value [OF hc, THEN conjunct1])
    have lt: "hexToInt c < 16"
      by (rule hexToInt_value [OF hc, THEN conjunct2])
    from word_shift4_or [OF lt, of "of_nat a"] show ?thesis
      by (simp only: v) (simp add: mult.commute)
  qed
  have "digits_loop ((pre @ [c]) @ ds @ rest) 16 (of_nat (16 * a + hex_digit_value c))
          (int (length (pre @ [c]))) (hd (ds @ rest)) =
        Some (of_nat (hex_value_from (16 * a + hex_digit_value c) ds),
              int (length (pre @ [c])) + int (length ds), hd rest)"
    by (rule Cons.IH [OF hds Cons.prems(2,3)])
  then show ?case
    using hc nxt step by (subst digits_loop.simps) (simp add: add.commute)
qed

lemma Lex_of_lex:
  assumes "lex ctx lval = Some (t, lv, c)" and "regexValid c = regexValid ctx"
  shows "Lex ctx lval = Some (t, lv\<lparr>sym_ctx := Some (parsing_ctx c)\<rparr>, c\<lparr>regexValid := False\<rparr>)"
  using assms by (cases c) (auto simp: Lex_def Let_def)

lemma sint_of_nat_small: "n < 2 ^ 63 \<Longrightarrow> sint (of_nat n :: int64) = int n"
proof -
  assume a: "n < 2 ^ 63"
  have "(of_nat n :: int64) = word_of_int (int n)" by simp
  then have "sint (of_nat n :: int64) = signed_take_bit 63 (int n)"
    by (simp only: sint_sbintrunc') simp
  also have "\<dots> = int n"
    using a by (intro signed_take_bit_int_eq_self) auto
  finally show ?thesis .
qed

text \<open>
  C9, as the code has it: at \<open>0x\<close> or \<open>0X\<close> followed by a run of hex digits that ends
  before a byte that is no hex digit, \<open>Lex\<close> returns a literal and stops after the run.
  The literal is the Integer of 64 bits that the digits give when they are read most
  significant first, a letter counting the same in either case, and the result is cut to
  64 bits: as an unsigned number it is that reading modulo \<open>2 ^ 64\<close>, and as the signed
  number it is that reading itself when the reading is below \<open>2 ^ 63\<close>.
\<close>

theorem hex_literal_value:
  assumes "source ctx = pre @ CHR ''0'' # x # ds @ rest"
    and "offset ctx = int (length pre)"
    and "x = CHR ''x'' \<or> x = CHR ''X''"
    and "ds \<noteq> []" and "list_all isHex ds"
    and "rest \<noteq> []" and "\<not> isHex (hd rest)"
  shows "Lex ctx lval =
           Some (GTOK_LITERAL,
                 lval\<lparr>parseType := PARSED_LITERAL,
                      literal := Some (IntegerType (of_nat (hex_value ds))),
                      sym_ctx := Some (parsing_ctx ctx)\<rparr>,
                 ctx\<lparr>offset := int (length pre) + 2 + int (length ds), regexValid := False\<rparr>)
         \<and> unat (of_nat (hex_value ds) :: int64) = hex_value ds mod 2 ^ 64
         \<and> (hex_value ds < 2 ^ 63 \<longrightarrow>
              sint (of_nat (hex_value ds) :: int64) = int (hex_value ds))"
proof -
  let ?s = "source ctx"
  have a0: "at ?s (offset ctx) = Some (CHR ''0'')"
    using at_append_right [of 0 pre] assms(1,2) by (simp add: at_Cons_0)
  have a1: "at ?s (offset ctx + 1) = Some x"
    using at_append_right [of 1 pre] assms(1,2) by (simp add: at_Cons_0 at_Cons_pos)
  have a2: "at ?s (offset ctx + 2) = Some (hd (ds @ rest))"
    using at_append_right [of 2 pre] assms(1,2,4) by (simp add: at_Cons_0 at_Cons_pos at_hd)
  have probe: "radix_probe ctx (CHR ''0'') x = Some (offset ctx + 2, hd (ds @ rest), 16)"
    using a1 a2 assms(3) by (auto simp: radix_probe_def)
  have "digits_loop ((pre @ [CHR ''0'', x]) @ ds @ rest) 16 (of_nat 0)
          (int (length (pre @ [CHR ''0'', x]))) (hd (ds @ rest)) =
        Some (of_nat (hex_value_from 0 ds), int (length (pre @ [CHR ''0'', x])) + int (length ds),
              hd rest)"
    by (rule digits_loop_hex [OF assms(5,6,7)])
  then have loop: "digits_loop ?s 16 0 (offset ctx + 2) (hd (ds @ rest)) =
        Some (of_nat (hex_value ds), int (length pre) + 2 + int (length ds), hd rest)"
    using assms(1,2) by (simp add: hex_value_def add.commute)
  have num: "lex_number ctx (lval\<lparr>parseType := PARSED_UNDEFINED\<rparr>) (CHR ''0'') x =
        Some (GTOK_LITERAL,
              lval\<lparr>parseType := PARSED_LITERAL, literal := Some (IntegerType (of_nat (hex_value ds)))\<rparr>,
              ctx\<lparr>offset := int (length pre) + 2 + int (length ds)\<rparr>)"
    using probe loop assms(2,4) by (simp add: lex_number_def)
  have "lex ctx lval =
        Some (GTOK_LITERAL,
              lval\<lparr>parseType := PARSED_LITERAL, literal := Some (IntegerType (of_nat (hex_value ds)))\<rparr>,
              ctx\<lparr>offset := int (length pre) + 2 + int (length ds)\<rparr>)"
    unfolding lex_def
    using a0 a1 num assms(3) by (subst lex_loop.simps) auto
  from Lex_of_lex [OF this] show ?thesis
    by (simp add: unat_of_nat sint_of_nat_small)
qed

theorem hex_literal_value_witness:
  "Lex (newLexer ''0x0aBc'') zero_gesSymType =
     Some (GTOK_LITERAL,
           zero_gesSymType\<lparr>parseType := PARSED_LITERAL, literal := Some (IntegerType 2748),
             sym_ctx := Some (parsing_ctx (newLexer ''0x0aBc''))\<rparr>,
           (newLexer ''0x0aBc'')\<lparr>offset := 6, regexValid := False\<rparr>)"
  using hex_literal_value [of "newLexer ''0x0aBc''" "[]" "CHR ''x''" "''0aBc''" "[NUL]"
      zero_gesSymType]
  by (simp add: newLexer_def isHex_def hex_value_def hex_digit_value_def hex_digits_def)

subsection \<open>A radix prefix with no digit\<close>

lemma identBreak_NUL: "identBreak NUL"
  by (simp add: identBreak_def)

lemma ident_end_run:
  assumes "list_all (\<lambda>c. \<not> identBreak c) w" and "rest \<noteq> []" and "identBreak (hd rest)"
  shows "ident_end (pre @ w @ rest) (int (length pre)) = Some (int (length pre) + int (length w))"
  using assms
proof (induction w arbitrary: pre)
  case Nil
  have "at (pre @ rest) (int (length pre)) = Some (hd rest)"
    using at_append_right [of 0 pre rest] Nil.prems(2) by (simp add: at_hd)
  with Nil.prems(3) show ?case by (subst ident_end.simps) simp
next
  case (Cons c w)
  from Cons.prems have c: "\<not> identBreak c" and w: "list_all (\<lambda>c. \<not> identBreak c) w"
    by simp_all
  from c identBreak_NUL have nz: "c \<noteq> NUL" by auto
  have here: "at (pre @ (c # w) @ rest) (int (length pre)) = Some c"
    using at_append_right [of 0 pre "(c # w) @ rest"] by (simp add: at_Cons_0)
  have "ident_end ((pre @ [c]) @ w @ rest) (int (length (pre @ [c]))) =
        Some (int (length (pre @ [c])) + int (length w))"
    by (rule Cons.IH [OF w Cons.prems(2,3)])
  with here c nz show ?case by (subst ident_end.simps) (simp add: add.commute)
qed

lemma slice_middle:
  "slice (pre @ w @ rest) (int (length pre)) (int (length pre) + int (length w)) = Some w"
  by (simp add: slice_def)

lemma no_keyword_starts_with_x:
  assumes "x = CHR ''x'' \<or> x = CHR ''X''"
  shows "find (\<lambda>(w', t). int (length w') = n \<and> x # w = w') keywords = None"
  using assms by (elim disjE; simp add: keywords_def)

text \<open>
  C8: at \<open>0x\<close> or \<open>0X\<close> followed by a byte that is no hex digit, \<open>Lex\<close> returns the
  Integer literal 0 and stops after the \<open>0\<close>; the next call returns an identifier, the
  \<open>x\<close> with the identifier bytes that follow it.
\<close>

theorem hex_prefix_rollback:
  assumes "source ctx = pre @ CHR ''0'' # x # w @ rest"
    and "offset ctx = int (length pre)"
    and "x = CHR ''x'' \<or> x = CHR ''X''"
    and "list_all (\<lambda>c. \<not> identBreak c) w"
    and "rest \<noteq> []" and "identBreak (hd rest)"
    and "\<not> isHex (hd (w @ rest))"
  shows "Lex ctx lval =
           Some (GTOK_LITERAL,
                 lval\<lparr>parseType := PARSED_LITERAL, literal := Some (IntegerType 0),
                      sym_ctx := Some (parsing_ctx ctx)\<rparr>,
                 ctx\<lparr>offset := int (length pre) + 1, regexValid := False\<rparr>)
         \<and> Lex (ctx\<lparr>offset := int (length pre) + 1, regexValid := False\<rparr>)
                (lval\<lparr>parseType := PARSED_LITERAL, literal := Some (IntegerType 0),
                      sym_ctx := Some (parsing_ctx ctx)\<rparr>) =
           Some (GTOK_IDENTIFIER,
                 lval\<lparr>parseType := PARSED_IDENTIFIER, identifier := x # w,
                      literal := Some (IntegerType 0), sym_ctx := Some (parsing_ctx ctx)\<rparr>,
                 ctx\<lparr>offset := int (length pre) + 2 + int (length w), regexValid := False\<rparr>)"
proof
  let ?s = "source ctx"
  have wr: "w @ rest \<noteq> []" using assms(5) by simp
  have a0: "at ?s (offset ctx) = Some (CHR ''0'')"
    using at_append_right [of 0 pre] assms(1,2) by (simp add: at_Cons_0)
  have a1: "at ?s (offset ctx + 1) = Some x"
    using at_append_right [of 1 pre] assms(1,2) by (simp add: at_Cons_0 at_Cons_pos)
  have a2: "at ?s (offset ctx + 2) = Some (hd (w @ rest))"
    using at_append_right [of 2 pre] assms(1,2) wr
    by (simp add: at_Cons_0 at_Cons_pos at_hd del: append_is_Nil_conv)
  have probe: "radix_probe ctx (CHR ''0'') x = Some (offset ctx + 2, hd (w @ rest), 16)"
    using a1 a2 assms(3) by (auto simp: radix_probe_def)
  have loop: "digits_loop ?s 16 0 (offset ctx + 2) (hd (w @ rest)) =
        Some (0, offset ctx + 2, hd (w @ rest))"
    using assms(7) by (subst digits_loop.simps) simp
  have sl: "slice ?s (offset ctx) (offset ctx + 1) = Some ''0''"
    using slice_middle [of pre "''0''" "x # w @ rest"] assms(1,2) by simp
  have pi: "ParseInt ''0'' = Inr 0"
    by (simp add: ParseInt_def isDigit_def digit_val_def)
  have num: "lex_number ctx (lval\<lparr>parseType := PARSED_UNDEFINED\<rparr>) (CHR ''0'') x =
        Some (GTOK_LITERAL,
              lval\<lparr>parseType := PARSED_LITERAL, literal := Some (IntegerType 0)\<rparr>,
              ctx\<lparr>offset := offset ctx + 1\<rparr>)"
    using probe loop sl pi by (simp add: lex_number_def add.commute)
  have x0: "x \<noteq> NUL" "x \<noteq> LF" using assms(3) by auto
  have "lex_loop ctx (lval\<lparr>parseType := PARSED_UNDEFINED\<rparr>) =
        lex_number ctx (lval\<lparr>parseType := PARSED_UNDEFINED\<rparr>) (CHR ''0'') x"
    using a0 a1 by (subst lex_loop.simps) simp
  with num have "lex ctx lval =
        Some (GTOK_LITERAL,
              lval\<lparr>parseType := PARSED_LITERAL, literal := Some (IntegerType 0)\<rparr>,
              ctx\<lparr>offset := int (length pre) + 1\<rparr>)"
    by (simp add: lex_def assms(2))
  from Lex_of_lex [OF this]
  show "Lex ctx lval =
           Some (GTOK_LITERAL,
                 lval\<lparr>parseType := PARSED_LITERAL, literal := Some (IntegerType 0),
                      sym_ctx := Some (parsing_ctx ctx)\<rparr>,
                 ctx\<lparr>offset := int (length pre) + 1, regexValid := False\<rparr>)"
    by simp
next
  let ?c = "ctx\<lparr>offset := int (length pre) + 1, regexValid := False\<rparr>"
  let ?l = "lval\<lparr>parseType := PARSED_LITERAL, literal := Some (IntegerType 0),
                 sym_ctx := Some (parsing_ctx ctx)\<rparr>"
  have src: "source ?c = (pre @ ''0'') @ (x # w) @ rest"
    using assms(1) by simp
  have wr: "w @ rest \<noteq> []" using assms(5) by simp
  have b0: "at (source ?c) (offset ?c) = Some x"
    using assms(1) by (simp add: at_append at_Cons_0 at_Cons_pos)
  have b1: "at (source ?c) (offset ?c + 1) = Some (hd (w @ rest))"
    using assms(1,5) by (cases w) (simp_all add: at_append at_Cons_0 at_Cons_pos at_hd)
  have xi: "\<not> identBreak x"
    using assms(3) by (auto simp: identBreak_def)
  have ie: "ident_end (source ?c) (offset ?c) = Some (int (length pre) + 2 + int (length w))"
    using ident_end_run [of "x # w" rest "pre @ ''0''"] xi assms(4,5,6) src
    by (simp add: ac_simps)
  have sl: "slice (source ?c) (offset ?c) (int (length pre) + 2 + int (length w)) = Some (x # w)"
    using slice_middle [of "pre @ ''0''" "x # w" rest] src by (simp add: ac_simps)
  have idt: "lex_identifier ?c (?l\<lparr>parseType := PARSED_UNDEFINED\<rparr>) =
        Some (GTOK_IDENTIFIER,
              ?l\<lparr>parseType := PARSED_IDENTIFIER, identifier := x # w\<rparr>,
              ?c\<lparr>offset := int (length pre) + 2 + int (length w)\<rparr>)"
    using ie sl no_keyword_starts_with_x [OF assms(3)]
    by (simp add: lex_identifier_def)
  have "lex_loop ?c (?l\<lparr>parseType := PARSED_UNDEFINED\<rparr>) =
        lex_identifier ?c (?l\<lparr>parseType := PARSED_UNDEFINED\<rparr>)"
    using assms(3)
  proof
    assume "x = CHR ''x''"
    with b0 b1 show ?thesis by (subst lex_loop.simps) simp
  next
    assume "x = CHR ''X''"
    with b0 b1 show ?thesis by (subst lex_loop.simps) simp
  qed
  with idt have "lex ?c ?l =
        Some (GTOK_IDENTIFIER,
              ?l\<lparr>parseType := PARSED_IDENTIFIER, identifier := x # w\<rparr>,
              ?c\<lparr>offset := int (length pre) + 2 + int (length w)\<rparr>)"
    by (simp add: lex_def)
  from Lex_of_lex [OF this]
  show "Lex ?c ?l =
           Some (GTOK_IDENTIFIER,
                 lval\<lparr>parseType := PARSED_IDENTIFIER, identifier := x # w,
                      literal := Some (IntegerType 0), sym_ctx := Some (parsing_ctx ctx)\<rparr>,
                 ctx\<lparr>offset := int (length pre) + 2 + int (length w), regexValid := False\<rparr>)"
    by simp
qed

theorem hex_prefix_rollback_witness:
  "Lex (newLexer ''0xyz'') zero_gesSymType =
     Some (GTOK_LITERAL,
           zero_gesSymType\<lparr>parseType := PARSED_LITERAL, literal := Some (IntegerType 0),
             sym_ctx := Some (parsing_ctx (newLexer ''0xyz''))\<rparr>,
           (newLexer ''0xyz'')\<lparr>offset := 1, regexValid := False\<rparr>)
   \<and> Lex ((newLexer ''0xyz'')\<lparr>offset := 1, regexValid := False\<rparr>)
          (zero_gesSymType\<lparr>parseType := PARSED_LITERAL, literal := Some (IntegerType 0),
             sym_ctx := Some (parsing_ctx (newLexer ''0xyz''))\<rparr>) =
     Some (GTOK_IDENTIFIER,
           zero_gesSymType\<lparr>parseType := PARSED_IDENTIFIER, identifier := ''xyz'',
             literal := Some (IntegerType 0),
             sym_ctx := Some (parsing_ctx (newLexer ''0xyz''))\<rparr>,
           (newLexer ''0xyz'')\<lparr>offset := 4, regexValid := False\<rparr>)"
  using hex_prefix_rollback [of "newLexer ''0xyz''" "[]" "CHR ''x''" "''yz''" "[NUL]"
      zero_gesSymType]
  by (simp add: newLexer_def identBreak_def isHex_def)

subsection \<open>Runs of the scanner on given sources\<close>

text \<open>
  The scanner is run by rewriting with its defining equations; the argument of a bind is
  rewritten before the function it is bound to.
\<close>

lemma bind_eval_cong: "x = y \<Longrightarrow> Option.bind x f = Option.bind y f"
  by simp

lemmas scan_defs =
  Lex_def lex_def lex_loop.simps at_def slice_def newLexer_def zero_gesSymType_def
  lex_operator_def op_switch_def op_lt_def op_gt_def op_eq_def op_not_def op_double_def
  op_assign_def lex_number_def radix_probe_def digits_loop.simps float_span.simps
  lex_identifier_def ident_end.simps identBreak_def keywords_def
  lex_string_def string_loop.simps escape_def lex_regex_def regex_loop.simps
  line_comment_def skip_line.simps block_comment_def skip_block.simps
  isHex_def isDigit_def isOctal_def hexToInt_def

lemmas strconv_defs =
  ParseInt_def ParseUint_loop.simps ParseFloat_def exp_loop.simps dec_value.simps
  float_overflows_def digit_val_def NumError_Error_def Quote_def quote_byte_def
  hex_digit_def utf8_def

lemma char_of_32: "char_of (32 :: nat) = CHR '' ''"
  by code_simp

lemma utf8_space: "utf8 32 = '' ''"
  by (simp add: utf8_def char_of_32)

text \<open>
  C9, as the spec has it, fails on a run of seventeen digits: read in base 16 the run
  \<open>10000000000000000\<close> is \<open>2 ^ 64\<close>, and the literal is the Integer 0.
\<close>

theorem hex_literal_wraps_at_64_bits:
  "Lex (newLexer ''0x10000000000000000'') zero_gesSymType =
     Some (GTOK_LITERAL,
           zero_gesSymType\<lparr>parseType := PARSED_LITERAL, literal := Some (IntegerType 0),
             sym_ctx := Some (parsing_ctx (newLexer []))\<rparr>,
           (newLexer ''0x10000000000000000'')\<lparr>offset := 19\<rparr>)
   \<and> hex_value ''10000000000000000'' = 2 ^ 64"
  by (simp add: scan_defs hex_value_def hex_digit_value_def hex_digits_def
      cong: bind_eval_cong)

text \<open>
  C7: on \<open># abc\<close>, whose first byte starts no token, \<open>Lex\<close> returns the error token and
  leaves the scanner as it was, its error slot empty; \<open>Parse\<close> then has only its generic
  message to return.
\<close>

theorem unrecognized_byte_without_message:
  "Lex (newLexer ''# abc'') zero_gesSymType =
     Some (GTOK_ERROR,
           zero_gesSymType\<lparr>sym_ctx := Some (parsing_ctx (newLexer ''# abc''))\<rparr>,
           newLexer ''# abc'')
   \<and> error (newLexer ''# abc'') = None
   \<and> Parse_result 1 (newLexer ''# abc'') = Inl (Error ''Unknown parsing error'')"
  by (simp add: scan_defs Parse_result_def cong: bind_eval_cong)

text \<open>
  C10: the loop that extends a literal to a floating one steps over a \<open>-\<close> wherever it
  meets one.  On \<open>1.0-2\<close> it runs from the point over the \<open>-\<close> and the \<open>2\<close> to the
  end of the source, \<open>strconv.ParseFloat\<close> refuses the five bytes, and \<open>Lex\<close> returns the
  error token with the message of an invalid literal float, the offset still at the start.
\<close>

theorem float_rescan_takes_minus:
  "float_span s eso (CHR ''-'') = do { c \<leftarrow> at s (eso + 1); float_span s (eso + 1) c }
   \<and> float_span (source (newLexer ''1.0-2'')) 1 (CHR ''.'') = Some (5, NUL)
   \<and> Lex (newLexer ''1.0-2'') zero_gesSymType =
     Some (GTOK_ERROR,
           zero_gesSymType\<lparr>sym_ctx := Some (parsing_ctx (newLexer ''1.0-2''))\<rparr>,
           (newLexer ''1.0-2'')
             \<lparr>error := Some (''Invalid literal float: strconv.ParseFloat: parsing '' @
                             [DQUOTE] @ ''1.0-2'' @ [DQUOTE] @ '': invalid syntax'')\<rparr>)"
proof (intro conjI)
  show "float_span s eso (CHR ''-'') = do { c \<leftarrow> at s (eso + 1); float_span s (eso + 1) c }"
    by (subst float_span.simps) simp
  show "float_span (source (newLexer ''1.0-2'')) 1 (CHR ''.'') = Some (5, NUL)"
    by (simp add: scan_defs cong: bind_eval_cong)
  show "Lex (newLexer ''1.0-2'') zero_gesSymType =
     Some (GTOK_ERROR,
           zero_gesSymType\<lparr>sym_ctx := Some (parsing_ctx (newLexer ''1.0-2''))\<rparr>,
           (newLexer ''1.0-2'')
             \<lparr>error := Some (''Invalid literal float: strconv.ParseFloat: parsing '' @
                             [DQUOTE] @ ''1.0-2'' @ [DQUOTE] @ '': invalid syntax'')\<rparr>)"
    by (simp add: scan_defs strconv_defs cong: bind_eval_cong)
qed

text \<open>
  C1: in the literal \<open>'a\<close>, backslash, line break, \<open>b'\<close>, with the line break a line
  feed, a carriage return and a line feed, or a carriage return alone, the line number
  goes from 1 to 2 and the decoded String is \<open>a b\<close>: the escaped line break has put a
  space between the \<open>a\<close> and the \<open>b\<close>.
\<close>

theorem escaped_line_break_appends_space:
  "Lex (newLexer [SQUOTE, CHR ''a'', BACKSLASH, LF, CHR ''b'', SQUOTE]) zero_gesSymType =
     Some (GTOK_LITERAL,
           zero_gesSymType\<lparr>parseType := PARSED_LITERAL, literal := Some (StringType ''a b''),
             sym_ctx := Some (parsing_ctx (newLexer []))\<rparr>,
           (newLexer [SQUOTE, CHR ''a'', BACKSLASH, LF, CHR ''b'', SQUOTE])
             \<lparr>offset := 6, lineNumber := 2\<rparr>)
   \<and> Lex (newLexer [SQUOTE, CHR ''a'', BACKSLASH, CR, LF, CHR ''b'', SQUOTE]) zero_gesSymType =
     Some (GTOK_LITERAL,
           zero_gesSymType\<lparr>parseType := PARSED_LITERAL, literal := Some (StringType ''a b''),
             sym_ctx := Some (parsing_ctx (newLexer []))\<rparr>,
           (newLexer [SQUOTE, CHR ''a'', BACKSLASH, CR, LF, CHR ''b'', SQUOTE])
             \<lparr>offset := 7, lineNumber := 2\<rparr>)
   \<and> Lex (newLexer [SQUOTE, CHR ''a'', BACKSLASH, CR, CHR ''b'', SQUOTE]) zero_gesSymType =
     Some (GTOK_LITERAL,
           zero_gesSymType\<lparr>parseType := PARSED_LITERAL, literal := Some (StringType ''a b''),
             sym_ctx := Some (parsing_ctx (newLexer []))\<rparr>,
           (newLexer [SQUOTE, CHR ''a'', BACKSLASH, CR, CHR ''b'', SQUOTE])
             \<lparr>offset := 6, lineNumber := 2\<rparr>)"
  by (simp add: scan_defs utf8_space cong: bind_eval_cong)

text \<open>
  C2: on \<open>case case\<close> the first call of \<open>Lex\<close> returns the keyword and sets
  \<open>regexValid\<close>; the second call, entered with the flag set, returns the keyword again,
  which sets the flag again, and leaves with the flag cleared.  The same holds of a second
  \<open>=~\<close> scanned with the flag set.
\<close>

theorem regexValid_cleared_after_rearming:
  "Lex (newLexer ''case case'') zero_gesSymType =
     Some (GTOK_CASE, zero_gesSymType\<lparr>sym_ctx := Some (parsing_ctx (newLexer []))\<rparr>,
           (newLexer ''case case'')\<lparr>offset := 4, regexValid := True\<rparr>)
   \<and> Lex ((newLexer ''case case'')\<lparr>offset := 4, regexValid := True\<rparr>)
          (zero_gesSymType\<lparr>sym_ctx := Some (parsing_ctx (newLexer []))\<rparr>) =
     Some (GTOK_CASE, zero_gesSymType\<lparr>sym_ctx := Some (parsing_ctx (newLexer []))\<rparr>,
           (newLexer ''case case'')\<lparr>offset := 9, regexValid := False\<rparr>)
   \<and> Lex ((newLexer ''=~ =~'')\<lparr>offset := 2, regexValid := True\<rparr>) zero_gesSymType =
     Some (GTOK_REGEQ, zero_gesSymType\<lparr>sym_ctx := Some (parsing_ctx (newLexer []))\<rparr>,
           (newLexer ''=~ =~'')\<lparr>offset := 5, regexValid := False\<rparr>)"
  by (simp add: scan_defs cong: bind_eval_cong)

end
